theory Spec2Isabelle
  imports Main "HOL-Library.Char_ord" "HOL-Library.List_Lexorder"
begin

section \<open>Characters and strings\<close>

text \<open>
  A JavaScript string is modelled as a \<open>string\<close>; the code unit of a character is
  \<open>of_char c\<close>. A read past the end of a string (\<open>text.charAt(i)\<close>, \<open>text[i]\<close>) is
  \<open>None\<close>: the source gets \<open>''\<close> or \<open>undefined\<close> there, and every use in the source
  treats both the same way (falsy, equal to no character).
\<close>

definition charAt :: "string \<Rightarrow> nat \<Rightarrow> char option" where
  "charAt text i = (if i < length text then Some (text ! i) else None)"

definition code :: "char \<Rightarrow> nat" where
  "code c = of_char c"

text \<open>\<open>c >= '0' && c <= '9'\<close>\<close>
definition isDigit :: "char \<Rightarrow> bool" where
  "isDigit c = (48 \<le> code c \<and> code c \<le> 57)"

text \<open>\<open>c <= ' '\<close> on a character that is present.\<close>
definition leSpace :: "char \<Rightarrow> bool" where
  "leSpace c = (code c \<le> 32)"

text \<open>The characters the regular expression class \<open>\s\<close> and \<open>String.prototype.trim\<close>
  treat as white space, by code unit.\<close>
definition isSpaceCode :: "nat \<Rightarrow> bool" where
  "isSpaceCode n = ((9 \<le> n \<and> n \<le> 13) \<or> n = 32 \<or> n = 160 \<or> n = 5760
     \<or> (8192 \<le> n \<and> n \<le> 8202) \<or> n = 8232 \<or> n = 8233 \<or> n = 8239 \<or> n = 8287
     \<or> n = 12288 \<or> n = 65279)"

definition isSpace :: "char \<Rightarrow> bool" where
  "isSpace c = isSpaceCode (code c)"

text \<open>A character of the model is one byte: only the codes below 256 occur.\<close>
lemma isSpace_byte [code]:
  "isSpace c = (let n = code c in (9 \<le> n \<and> n \<le> 13) \<or> n = 32 \<or> n = 160)"
proof -
  have "n < 256 \<Longrightarrow> isSpaceCode n = ((9 \<le> n \<and> n \<le> 13) \<or> n = 32 \<or> n = 160)" for n
    by (auto simp: isSpaceCode_def)
  then show ?thesis by (simp add: isSpace_def code_def Let_def)
qed

definition trim :: "string \<Rightarrow> string" where
  "trim s = rev (dropWhile isSpace (rev (dropWhile isSpace s)))"

text \<open>\<open>s.indexOf(t) >= 0\<close>, \<open>s.includes(t)\<close>\<close>
fun str_includes :: "string \<Rightarrow> string \<Rightarrow> bool" where
  "str_includes [] t = (t = [])"
| "str_includes (c # cs) t = (take (length t) (c # cs) = t \<or> str_includes cs t)"

text \<open>\<open>s.split('\n')\<close>: always at least one piece.\<close>
fun split_on :: "char \<Rightarrow> string \<Rightarrow> string list" where
  "split_on d [] = [[]]"
| "split_on d (c # cs) =
     (if c = d then [] # split_on d cs
      else (case split_on d cs of
              [] \<Rightarrow> [[c]]
            | l # ls \<Rightarrow> (c # l) # ls))"

text \<open>\<open>lines.join(sep)\<close>\<close>
fun join :: "string \<Rightarrow> string list \<Rightarrow> string" where
  "join sep [] = []"
| "join sep [l] = l"
| "join sep (l # ls) = l @ sep @ join sep ls"

text \<open>\<open>s.replace(/\n/g, r)\<close>: every line feed replaced.\<close>
definition replace_all_nl :: "string \<Rightarrow> string \<Rightarrow> string" where
  "replace_all_nl r s = concat (map (\<lambda>c. if c = CHR 0x0A then r else [c]) s)"

text \<open>\<open>s.replace("\n", r)\<close> with a string pattern: only the first line feed is replaced.\<close>
fun replace_first_nl :: "string \<Rightarrow> string \<Rightarrow> string" where
  "replace_first_nl r [] = []"
| "replace_first_nl r (c # cs) = (if c = CHR 0x0A then r @ cs else c # replace_first_nl r cs)"

text \<open>\<open>s.substr(start, n)\<close> for a start that is not negative.\<close>
definition substr :: "string \<Rightarrow> nat \<Rightarrow> nat \<Rightarrow> string" where
  "substr s start n = take n (drop start s)"

text \<open>\<open>indent.repeat(n)\<close>\<close>
definition repeat :: "string \<Rightarrow> nat \<Rightarrow> string" where
  "repeat s n = concat (replicate n s)"

text \<open>\<open>String(n)\<close> for a whole number \<open>n\<close> that is not negative: its decimal numeral.\<close>
fun natToString :: "nat \<Rightarrow> string" where
  "natToString n =
     (if n < 10 then [''0123456789'' ! n]
      else natToString (n div 10) @ [''0123456789'' ! (n mod 10)])"

declare natToString.simps [simp del]

section \<open>Values and the annotation store\<close>

text \<open>
  A JavaScript number is a finite double or one of the three non-finite values. The type
  of finite numbers is a parameter \<open>'n\<close>: the two conversions of the language between
  numbers and their text (\<open>+string\<close> and \<open>String(number)\<close>) are not code of this
  repository and are taken as the parameters \<open>toNumber\<close> and \<open>numberToString\<close>;
  \<open>getEOL\<close> is the process-wide end of line read by \<open>common.getEOL()\<close>, and
  \<open>maxStringLength\<close> is the length of the longest string of the engine, past which
  \<open>String.prototype.repeat\<close> throws a \<open>RangeError\<close>.
\<close>

datatype 'n jsnum = Finite 'n | NaN | PosInfinity | NegInfinity

fun isFinite :: "'n jsnum \<Rightarrow> bool" where
  "isFinite (Finite _) = True"
| "isFinite _ = False"

record 'n jsenv =
  toNumber :: "string \<Rightarrow> 'n jsnum"
  numberToString :: "'n \<Rightarrow> string"
  getEOL :: string
  maxStringLength :: int

text \<open>
  The portable comment document that the extractor builds and the merger reads: an
  object with the optional properties \<open>a\<close>, \<open>s\<close>, \<open>o\<close>, \<open>e\<close>, \<open>r\<close>, \<open>b\<close> and
  \<open>x\<close>. The node for an array has the index map \<open>a\<close>; the node for an object has the
  key map \<open>s\<close> and the key order \<open>o\<close>. The entry for a child is the node of the child
  itself (\<open>res[key] = c || {}\<close>) with the comment before in \<open>b\<close> and the comment after
  in \<open>a\<close>, so the property \<open>a\<close> holds an index map or a string (\<open>slot\<close>). \<open>e\<close> and \<open>r\<close>
  are objects \<open>{b, a}\<close> made by \<open>makeComment\<close>.
\<close>

datatype cdoc =
  CDoc (d_a: "slot option") (d_s: "(string \<times> cdoc) list option") (d_o: "string list option")
       (d_e: "(string option \<times> string option) option")
       (d_r: "(string option \<times> string option) option")
       (d_b: "string option") (d_x: "cdoc option")
and slot = AText string | AMap "(nat \<times> cdoc) list"

definition emptyDoc :: cdoc where
  "emptyDoc = CDoc None None None None None None None"

text \<open>
  One entry of the annotation store for a child: the source writes it as a two-element
  array \<open>[before, after]\<close> (parser, merger) and the extractor reads it by index
  (\<open>ck[0]\<close>, \<open>ck[1]\<close>; \<open>ck[2]\<close> is then \<open>undefined\<close>), while the stringifier reads the
  properties \<open>.b\<close> and \<open>.a\<close> of the same object. Each of the four may be absent
  (\<open>undefined\<close>). The merger stores the property \<open>a\<close> of a document entry at index 1,
  whatever it holds.
\<close>

record centry =
  idx0 :: "string option"
  idx1 :: "slot option"
  prop_b :: "string option"
  prop_a :: "string option"

definition pair_entry :: "string option \<Rightarrow> slot option \<Rightarrow> centry" where
  "pair_entry x y = \<lparr>idx0 = x, idx1 = y, prop_b = None, prop_a = None\<rparr>"

text \<open>
  The annotation store of a node (\<open>interface Comments\<close>, the hidden property
  \<open>__COMMENTS__\<close>). \<open>ca\<close> is the array \<open>a\<close>, with \<open>None\<close> for a hole; \<open>cc\<close> is the
  object \<open>c\<close> in insertion order; \<open>ce\<close> and \<open>cr\<close> are the pairs \<open>e\<close> and \<open>r\<close>, whose
  components may be \<open>undefined\<close>; \<open>co\<close> is the key order \<open>o\<close>.
\<close>

record comments =
  ca :: "centry option list option"
  cc :: "(string \<times> centry) list option"
  ce :: "(string option \<times> string option) option"
  co :: "string list option"
  cr :: "(string option \<times> string option) option"

definition no_comments :: comments where
  "no_comments = \<lparr>ca = None, cc = None, ce = None, co = None, cr = None\<rparr>"

text \<open>
  The values the stringifier can be handed (\<open>any\<close>): the six kinds of the data model, and
  \<open>undefined\<close> and functions, which it has to degrade. An array or an object carries its
  annotation store, when it has one; an object is the list of its own properties in
  property order.
\<close>

datatype 'n hvalue =
    Undefined
  | Function
  | Null
  | Bool bool
  | Num "'n jsnum"
  | Str string
  | Arr "comments option" "'n hvalue list"
  | Obj "comments option" "(string \<times> 'n hvalue) list"

text \<open>
  The annotation store is the own property \<open>__COMMENTS__\<close> of the array or object, made
  not enumerable by \<open>createComment\<close>: the first argument of \<open>Arr\<close> and \<open>Obj\<close> is that
  hidden property when it holds a store. An object can instead have an ordinary,
  enumerable property of the same name (the parser makes one for the key
  \<open>__COMMENTS__\<close> of the input): it is then in the list of properties like any other, and
  it is what \<open>obj.__COMMENTS__\<close> reads. An object has one property of a name, so a value
  with the hidden store has no such key in its list.
\<close>
definition commentsKey :: string where
  "commentsKey = ''__COMMENTS__''"

text \<open>What \<open>obj.__COMMENTS__\<close> reads: nothing, a store, or a property of the payload.\<close>
datatype 'n storeProp = NoStore | Store comments | Payload "'n hvalue"

text \<open>\<open>common.getComment(obj)\<close>: \<open>undefined\<close> for what is not an object, else
  \<open>obj.__COMMENTS__\<close>.\<close>
fun getComment :: "'n hvalue \<Rightarrow> 'n storeProp" where
  "getComment (Arr cm vs) = (case cm of None \<Rightarrow> NoStore | Some w \<Rightarrow> Store w)"
| "getComment (Obj cm kvs) =
     (case cm of
        Some w \<Rightarrow> Store w
      | None \<Rightarrow> (case map_of kvs commentsKey of None \<Rightarrow> NoStore | Some pv \<Rightarrow> Payload pv))"
| "getComment v = NoStore"

text \<open>
  The payload values that are falsy whatever the numbers are: \<open>undefined\<close>, \<open>null\<close>,
  \<open>false\<close>, the empty string and \<open>NaN\<close>.
\<close>
fun plainlyFalsy :: "'n hvalue \<Rightarrow> bool" where
  "plainlyFalsy Undefined = True"
| "plainlyFalsy Null = True"
| "plainlyFalsy (Bool b) = (\<not> b)"
| "plainlyFalsy (Str s) = (s = [])"
| "plainlyFalsy (Num n) = (n = NaN)"
| "plainlyFalsy v = False"

text \<open>
  The store as the code that only reads it takes it (\<open>commentInfo\<close> in \<open>visit\<close>,
  \<open>comments\<close> in \<open>extractComments\<close>), where every use is guarded by a test of truthiness
  or by \<open>?.\<close>: a falsy payload property reads as no store. Any other payload property is
  read by the code as if it were a store, property by property; a \<open>comments\<close> record
  cannot hold that, and the model leaves the result unspecified.
\<close>
definition storeOf :: "'n hvalue \<Rightarrow> comments option" where
  "storeOf v =
     (case getComment v of
        NoStore \<Rightarrow> None
      | Store w \<Rightarrow> Some w
      | Payload pv \<Rightarrow> if plainlyFalsy pv then None else undefined)"

text \<open>The properties of an object without the one named \<open>__COMMENTS__\<close>.\<close>
definition hideKey :: "(string \<times> 'a) list \<Rightarrow> (string \<times> 'a) list" where
  "hideKey kvs = filter (\<lambda>p. fst p \<noteq> commentsKey) kvs"

text \<open>
  \<open>common.createComment(obj, comments)\<close> for a store \<open>w\<close>: \<open>Object.defineProperty\<close> with
  \<open>enumerable: false\<close> and the value \<open>w\<close>. A payload property of that name becomes the
  hidden one and leaves the list.
\<close>
fun withComment :: "comments \<Rightarrow> 'n hvalue \<Rightarrow> 'n hvalue" where
  "withComment w (Arr cm vs) = Arr (Some w) vs"
| "withComment w (Obj cm kvs) = Obj (Some w) (hideKey kvs)"
| "withComment w v = v"

section \<open>The number lexer\<close>

record cursor =
  at :: nat
  ch :: "char option"

text \<open>\<open>next()\<close>: \<open>ch = text.charAt(at); at++\<close>\<close>
definition nextc :: "string \<Rightarrow> cursor \<Rightarrow> cursor" where
  "nextc text c = \<lparr>at = at c + 1, ch = charAt text (at c)\<rparr>"

definition remaining :: "string \<Rightarrow> cursor \<Rightarrow> nat" where
  "remaining text c = 2 * (length text - at c) + (if ch c = None then 0 else 1)"

text \<open>\<open>while (ch && p) next();\<close>\<close>
function skip_while :: "(cursor \<Rightarrow> bool) \<Rightarrow> string \<Rightarrow> cursor \<Rightarrow> cursor" where
  "skip_while p text c =
     (if ch c \<noteq> None \<and> p c then skip_while p text (nextc text c) else c)"
  by pat_completeness auto
termination
  by (relation "measure (\<lambda>(p, text, c). remaining text c)")
     (auto simp: remaining_def nextc_def charAt_def)

declare skip_while.simps [simp del]

text \<open>\<open>while (ch && p) { string += ch; next(); }\<close>\<close>
function collect_while :: "(cursor \<Rightarrow> bool) \<Rightarrow> string \<Rightarrow> cursor \<Rightarrow> string \<Rightarrow> string \<times> cursor" where
  "collect_while p text c acc =
     (case ch c of
        None \<Rightarrow> (acc, c)
      | Some x \<Rightarrow> if p c then collect_while p text (nextc text c) (acc @ [x]) else (acc, c))"
  by pat_completeness auto
termination
  by (relation "measure (\<lambda>(p, text, c, acc). remaining text c)")
     (auto simp: remaining_def nextc_def charAt_def)

declare collect_while.simps [simp del]

definition chIs :: "char \<Rightarrow> cursor \<Rightarrow> bool" where
  "chIs x c = (ch c = Some x)"

definition chDigit :: "cursor \<Rightarrow> bool" where
  "chDigit c = (case ch c of None \<Rightarrow> False | Some x \<Rightarrow> isDigit x)"

definition chLeSpace :: "cursor \<Rightarrow> bool" where
  "chLeSpace c = (case ch c of None \<Rightarrow> True | Some x \<Rightarrow> leSpace x)"

text \<open>
  The leading digits of \<open>tryParseNumber\<close>, with the count of leading zeros:
  \<open>while (ch >= '0' && ch <= '9') { if (testLeading) { if (ch === '0') leadingZeros++;
  else testLeading = false; } string += ch; next(); }\<close>
\<close>
function leading_digits :: "string \<Rightarrow> cursor \<Rightarrow> string \<Rightarrow> int \<Rightarrow> bool
    \<Rightarrow> string \<times> int \<times> bool \<times> cursor" where
  "leading_digits text c acc leadingZeros testLeading =
     (case ch c of
        None \<Rightarrow> (acc, leadingZeros, testLeading, c)
      | Some x \<Rightarrow>
          if isDigit x then
            leading_digits text (nextc text c) (acc @ [x])
              (if testLeading \<and> x = CHR ''0'' then leadingZeros + 1 else leadingZeros)
              (testLeading \<and> x = CHR ''0'')
          else (acc, leadingZeros, testLeading, c))"
  by pat_completeness auto
termination
  by (relation "measure (\<lambda>(text, c, acc, z, t). remaining text c)")
     (auto simp: remaining_def nextc_def charAt_def)

declare leading_digits.simps [simp del]

text \<open>
  \<open>tryParseNumber(text, stopAtNext)\<close>. With \<open>stopAtNext\<close>, a punctuator or comment
  opener after the number sets \<open>ch = '\0'\<close>, the string of the one character NUL.
  \<open>None\<close> is the source's \<open>undefined\<close>.
\<close>
definition tryParseNumber :: "'n jsenv \<Rightarrow> string \<Rightarrow> bool \<Rightarrow> 'n jsnum option" where
  "tryParseNumber env text stopAtNext =
     (let c0 = nextc text \<lparr>at = 0, ch = None\<rparr>;
          (s1, c1) = (if ch c0 = Some CHR ''-'' then (''-'', nextc text c0) else ('''', c0));
          (s2, z2, testLeading, c2) = leading_digits text c1 s1 0 True;
          leadingZeros = (if testLeading then z2 - 1 else z2);
          (s3, c3) = (if ch c2 = Some CHR ''.''
                      then collect_while chDigit text (nextc text c2) (s2 @ ''.'')
                      else (s2, c2));
          (s4, c4) = (case ch c3 of
                        None \<Rightarrow> (s3, c3)
                      | Some x \<Rightarrow>
                          if x = CHR ''e'' \<or> x = CHR ''E'' then
                            (let ca = nextc text c3;
                                 (sb, cb) = (case ch ca of
                                               None \<Rightarrow> (s3 @ [x], ca)
                                             | Some y \<Rightarrow>
                                                 if y = CHR ''-'' \<or> y = CHR ''+''
                                                 then (s3 @ [x, y], nextc text ca)
                                                 else (s3 @ [x], ca))
                             in collect_while chDigit text cb sb)
                          else (s3, c3));
          c5 = skip_while chLeSpace text c4;
          ch6 = (if stopAtNext \<and>
                    (ch c5 = Some CHR '','' \<or> ch c5 = Some CHR ''}'' \<or> ch c5 = Some CHR '']''
                     \<or> ch c5 = Some CHR ''#''
                     \<or> (ch c5 = Some CHR ''/''
                         \<and> (charAt text (at c5) = Some CHR ''/''
                              \<or> charAt text (at c5) = Some CHR ''*'')))
                 then Some (CHR 0x00) else ch c5);
          number = toNumber env s4
      in if ch6 \<noteq> None \<or> leadingZeros \<noteq> 0 \<or> \<not> isFinite number then None
         else Some number)"

section \<open>Errors and DSF hooks\<close>

text \<open>
  What the source throws. \<open>ParseError m line col snippet\<close> is the parser's
  \<open>new Error(m + " at line " + line + "," + col + " >>> " + snippet + " ...")\<close>;
  \<open>PlainError\<close> is any other \<open>new Error(message)\<close>; \<open>TypeError\<close> and \<open>RangeError\<close>
  are raised by the language itself (a property of \<open>undefined\<close>, a negative repeat
  count). The second component is the property \<open>hint\<close> that the parser attaches to a
  caught exception.
\<close>

datatype failure =
    ParseError string nat nat string
  | PlainError string
  | TypeError string
  | RangeError string

datatype error = Thrown failure "string option"

definition throw :: "failure \<Rightarrow> error + 'a" where
  "throw f = Inl (Thrown f None)"

text \<open>
  A DSF record \<open>{name, description, parse, stringify}\<close>. A hook that throws is \<open>Inl\<close> of
  the message of what it threw. A parse hook answers \<open>Undefined\<close> and a stringify hook
  \<open>None\<close> for "not mine".
\<close>

record 'n dsf =
  dsf_name :: string
  dsf_parse :: "string \<Rightarrow> string + 'n hvalue"
  dsf_stringify :: "'n hvalue \<Rightarrow> string + string option"

text \<open>\<open>loadDsf(col, type)\<close>: the validated list of hooks (\<open>nopDsf\<close> is the empty list).\<close>
definition loadDsf :: "'n dsf list option \<Rightarrow> error + 'n dsf list" where
  "loadDsf col =
     (case col of
        None \<Rightarrow> Inr []
      | Some xs \<Rightarrow>
          if \<exists>x \<in> set xs. dsf_name x = [] then
            throw (PlainError ''extension does not match the DSF interface'')
          else Inr xs)"

definition isInvalidDsfChar :: "char \<Rightarrow> bool" where
  "isInvalidDsfChar c = (c = CHR ''{'' \<or> c = CHR ''}'' \<or> c = CHR ''['' \<or> c = CHR '']''
     \<or> c = CHR '','' \<or> c = CHR 0x22)"

definition dsf_failed :: "string \<Rightarrow> string \<Rightarrow> failure" where
  "dsf_failed name m = PlainError (''DSF-'' @ name @ '' failed; '' @ m)"

text \<open>One wrapped stringify hook of \<open>loadDsf\<close>, with the validation of its result.\<close>
definition dsf_stringify_checked :: "'n dsf \<Rightarrow> 'n hvalue \<Rightarrow> error + string option" where
  "dsf_stringify_checked x v =
     (case dsf_stringify x v of
        Inl m \<Rightarrow> throw (dsf_failed (dsf_name x) m)
      | Inr None \<Rightarrow> Inr None
      | Inr (Some res) \<Rightarrow>
          if res = [] \<or> hd res = CHR 0x22 \<or> (\<exists>c \<in> set res. isInvalidDsfChar c) then
            throw (dsf_failed (dsf_name x)
              (''value may not be empty, start with a quote or contain a punctuator character except colon: '' @ res))
          else Inr (Some res))"

text \<open>\<open>runDsf(dsf, value)\<close> over the stringify hooks: the first defined result wins.\<close>
fun runDsf_stringify :: "'n dsf list \<Rightarrow> 'n hvalue \<Rightarrow> error + string option" where
  "runDsf_stringify [] v = Inr None"
| "runDsf_stringify (x # xs) v =
     (case dsf_stringify_checked x v of
        Inl e \<Rightarrow> Inl e
      | Inr (Some res) \<Rightarrow> Inr (Some res)
      | Inr None \<Rightarrow> runDsf_stringify xs v)"

text \<open>\<open>runDsf(dsf, value)\<close> over the parse hooks.\<close>
fun runDsf_parse :: "'n dsf list \<Rightarrow> string \<Rightarrow> error + 'n hvalue" where
  "runDsf_parse [] s = Inr Undefined"
| "runDsf_parse (x # xs) s =
     (case dsf_parse x s of
        Inl m \<Rightarrow> throw (dsf_failed (dsf_name x) m)
      | Inr v \<Rightarrow> if v \<noteq> Undefined then Inr v else runDsf_parse xs s)"

text \<open>
  The built-in DSF \<open>math\<close>. \<open>negZero\<close> tells which finite numbers are the negative zero
  (\<open>1 / value === -Infinity\<close>).
\<close>
definition mathDsf :: "('n \<Rightarrow> bool) \<Rightarrow> 'n dsf" where
  "mathDsf negZero =
     \<lparr>dsf_name = ''math'',
      dsf_parse = (\<lambda>s.
        if s = ''+inf'' \<or> s = ''inf'' \<or> s = ''+Inf'' \<or> s = ''Inf'' then Inr (Num PosInfinity)
        else if s = ''-inf'' \<or> s = ''-Inf'' then Inr (Num NegInfinity)
        else if s = ''nan'' \<or> s = ''NaN'' then Inr (Num NaN)
        else Inr Undefined),
      dsf_stringify = (\<lambda>v.
        case v of
          Num (Finite x) \<Rightarrow> Inr (if negZero x then Some ''-0'' else None)
        | Num PosInfinity \<Rightarrow> Inr (Some ''Inf'')
        | Num NegInfinity \<Rightarrow> Inr (Some ''-Inf'')
        | Num NaN \<Rightarrow> Inr (Some ''NaN'')
        | _ \<Rightarrow> Inr None)\<rparr>"

section \<open>The stringifier\<close>

subsection \<open>Options and tokens\<close>

datatype quotes_opt = QMin | QKeys | QStrings | QAll | QAlways
datatype multiline_opt = MStd | MNoTabs | MOff

text \<open>
  The option \<open>space\<close>: a string, or a number, which is read only as the count of
  \<open>' '.repeat(opt.space)\<close>. \<open>SpaceNum n\<close> is a finite number with the integer part \<open>n\<close>
  (the count that \<open>repeat\<close> takes from it); the other numbers are \<open>NaN\<close> and the two
  infinities.
\<close>
datatype space_opt =
  SpaceNum int | SpaceNaN | SpaceInfinity | SpaceNegInfinity | SpaceStr string

text \<open>
  \<open>StringifyOptions\<close>, every property optional. The record holds the properties the
  interface declares and the one more that \<open>stringify\<close> reads
  (\<open>keepWhitespaceAndComments\<close>); a call without options is the record with no property
  set.
\<close>

record 'n stringify_options =
  keepWhitespaceAndComment :: "bool option"
  keepWhitespaceAndComments :: "bool option"
  condense :: "int option"
  bracesSameLine :: "bool option"
  quotes :: "quotes_opt option"
  separator :: "bool option"
  multiline :: "multiline_opt option"
  eol :: "string option"
  sortProps :: "bool option"
  dsf :: "'n dsf list option"
  space :: "space_opt option"
  colors :: "bool option"
  emitRootBraces :: "bool option"

definition default_stringify_options :: "'n stringify_options" where
  "default_stringify_options =
     \<lparr>keepWhitespaceAndComment = None, keepWhitespaceAndComments = None, condense = None,
      bracesSameLine = None, quotes = None, separator = None, multiline = None, eol = None,
      sortProps = None, dsf = None, space = None, colors = None, emitRootBraces = None\<rparr>"

record token =
  t_obj :: "string \<times> string"
  t_arr :: "string \<times> string"
  t_key :: "string \<times> string"
  t_qkey :: "string \<times> string"
  t_col :: "string \<times> string"
  t_com :: "string \<times> string"
  t_str :: "string \<times> string"
  t_qstr :: "string \<times> string"
  t_mstr :: "string \<times> string"
  t_num :: "string \<times> string"
  t_lit :: "string \<times> string"
  t_dsf :: "string \<times> string"
  t_esc :: "string \<times> string"
  t_uni :: "string \<times> string"
  t_rem :: "string \<times> string"

definition plainToken :: token where
  "plainToken =
     \<lparr>t_obj = (''{'', ''}''), t_arr = (''['', '']''), t_key = ([], []),
      t_qkey = ([CHR 0x22], [CHR 0x22]), t_col = ('':'', []), t_com = ('','', []),
      t_str = ([], []), t_qstr = ([CHR 0x22], [CHR 0x22]),
      t_mstr = ([CHR 0x27, CHR 0x27, CHR 0x27], [CHR 0x27, CHR 0x27, CHR 0x27]),
      t_num = ([], []), t_lit = ([], []), t_dsf = ([], []),
      t_esc = ([CHR 0x5C], []), t_uni = ([CHR 0x5C, CHR ''u''], []), t_rem = ([], [])\<rparr>"

definition ansi :: "string \<Rightarrow> string" where
  "ansi s = CHR 0x1B # s"

definition ColorToken :: token where
  "ColorToken =
     \<lparr>t_obj = (ansi ''[37m{'' @ ansi ''[0m'', ansi ''[37m}'' @ ansi ''[0m''),
      t_arr = (ansi ''[37m['' @ ansi ''[0m'', ansi ''[37m]'' @ ansi ''[0m''),
      t_key = (ansi ''[33m'', ansi ''[0m''),
      t_qkey = (ansi ''[33m'' @ [CHR 0x22], CHR 0x22 # ansi ''[0m''),
      t_col = (ansi ''[37m:'' @ ansi ''[0m'', []),
      t_com = (ansi ''[37m,'' @ ansi ''[0m'', []),
      t_str = (ansi ''[37;1m'', ansi ''[0m''),
      t_qstr = (ansi ''[37;1m'' @ [CHR 0x22], CHR 0x22 # ansi ''[0m''),
      t_mstr = (ansi ''[37;1m'' @ [CHR 0x27, CHR 0x27, CHR 0x27],
                [CHR 0x27, CHR 0x27, CHR 0x27] @ ansi ''[0m''),
      t_num = (ansi ''[36;1m'', ansi ''[0m''),
      t_lit = (ansi ''[36m'', ansi ''[0m''),
      t_dsf = (ansi ''[37m'', ansi ''[0m''),
      t_esc = (ansi ''[31m'' @ [CHR 0x5C], ansi ''[0m''),
      t_uni = (ansi ''[31m'' @ [CHR 0x5C, CHR ''u''], ansi ''[0m''),
      t_rem = (ansi ''[35m'', ansi ''[0m'')\<rparr>"

text \<open>
  \<open>wrap(tk, v)\<close>. The source also adds to the counter \<open>wrapLen\<close>, which nothing reads;
  the counter is left out.
\<close>
definition wrap :: "string \<times> string \<Rightarrow> string \<Rightarrow> string" where
  "wrap tk v = fst tk @ v @ snd tk"

text \<open>The constants \<open>stringify\<close> derives from its options.\<close>
record 'n settings =
  s_token :: token
  s_eol :: string
  s_indent :: string
  s_keepComments :: bool
  s_bracesSameLine :: bool
  s_quoteKeys :: bool
  s_quoteStrings :: bool
  s_condense :: int
  s_multiline :: nat
  s_separator :: string
  s_sortProps :: bool
  s_runDsf :: "'n dsf list"

subsection \<open>Character classes of the regular expressions\<close>

text \<open>\<open>commonRange\<close>, by code unit.\<close>
definition commonRange :: "nat \<Rightarrow> bool" where
  "commonRange n = ((127 \<le> n \<and> n \<le> 159) \<or> n = 173 \<or> (1536 \<le> n \<and> n \<le> 1540)
     \<or> n = 1807 \<or> n = 6068 \<or> n = 6069 \<or> (8204 \<le> n \<and> n \<le> 8207)
     \<or> (8232 \<le> n \<and> n \<le> 8239) \<or> (8288 \<le> n \<and> n \<le> 8303) \<or> n = 65279
     \<or> (65520 \<le> n \<and> n \<le> 65535))"

text \<open>The class \<open>[\\\"\x00-\x1f commonRange]\<close> of \<open>needsEscape\<close>.\<close>
definition needsEscapeChar :: "char \<Rightarrow> bool" where
  "needsEscapeChar c = (c = CHR 0x5C \<or> c = CHR 0x22 \<or> code c \<le> 31 \<or> commonRange (code c))"

definition needsEscape :: "string \<Rightarrow> bool" where
  "needsEscape s = (\<exists>c \<in> set s. needsEscapeChar c)"

definition starts :: "string \<Rightarrow> string \<Rightarrow> bool" where
  "starts p s = (take (length p) s = p)"

text \<open>
  \<open>needsQuotes\<close>:
  \<open>^\s|^"|^'|^#|^\/\*|^\/\/|^\{|^\}|^\[|^\]|^:|^,|\s$|[\x00-\x1f commonRange]\<close>
\<close>
definition needsQuotes :: "string \<Rightarrow> bool" where
  "needsQuotes s =
     ((case s of [] \<Rightarrow> False
       | c # _ \<Rightarrow> isSpace c \<or> c = CHR 0x22 \<or> c = CHR 0x27 \<or> c = CHR ''#''
           \<or> c = CHR ''{'' \<or> c = CHR ''}'' \<or> c = CHR ''['' \<or> c = CHR '']''
           \<or> c = CHR '':'' \<or> c = CHR '','')
      \<or> starts ''/*'' s \<or> starts ''//'' s
      \<or> (s \<noteq> [] \<and> isSpace (last s))
      \<or> (\<exists>c \<in> set s. code c \<le> 31 \<or> commonRange (code c)))"

text \<open>A line terminator, which \<open>.\<close> of a regular expression does not match.\<close>
definition isLineTerminator :: "char \<Rightarrow> bool" where
  "isLineTerminator c = (code c = 10 \<or> code c = 13 \<or> code c = 8232 \<or> code c = 8233)"

text \<open>\<open>startsWithKeyword\<close>: \<open>^(true|false|null)\s*((,|\]|\}|#|//|/\*).*)?$\<close>\<close>
definition keywordTail :: "string \<Rightarrow> bool" where
  "keywordTail r =
     (let r' = dropWhile isSpace r
      in r' = [] \<or>
         ((starts '','' r' \<or> starts '']'' r' \<or> starts ''}'' r' \<or> starts ''#'' r'
            \<or> starts ''//'' r' \<or> starts ''/*'' r')
          \<and> \<not> (\<exists>c \<in> set r'. isLineTerminator c)))"

definition startsWithKeyword :: "string \<Rightarrow> bool" where
  "startsWithKeyword s =
     ((starts ''true'' s \<and> keywordTail (drop 4 s))
      \<or> (starts ''false'' s \<and> keywordTail (drop 5 s))
      \<or> (starts ''null'' s \<and> keywordTail (drop 4 s)))"

text \<open>
  \<open>needsEscapeML\<close>: \<open>'''|^[\s]+$|[\x00-\x08\x0b\x0c\x0e-\x1f commonRange]\<close>, with
  \<open>\x09\<close> in the class as well when \<open>multiline === 2\<close>.
\<close>
definition needsEscapeML :: "nat \<Rightarrow> string \<Rightarrow> bool" where
  "needsEscapeML ml s =
     (str_includes s [CHR 0x27, CHR 0x27, CHR 0x27]
      \<or> (s \<noteq> [] \<and> (\<forall>c \<in> set s. isSpace c))
      \<or> (\<exists>c \<in> set s. code c \<le> (if ml = 2 then 9 else 8) \<or> code c = 11 \<or> code c = 12
            \<or> (14 \<le> code c \<and> code c \<le> 31) \<or> commonRange (code c)))"

subsection \<open>Strings, keys and comments\<close>

definition hexDigit :: "nat \<Rightarrow> char" where
  "hexDigit d = ''0123456789abcdef'' ! (d mod 16)"

text \<open>\<open>('0000' + n.toString(16)).slice(-4)\<close> for a code unit \<open>n\<close>.\<close>
definition hex4 :: "nat \<Rightarrow> string" where
  "hex4 n = [hexDigit (n div 4096), hexDigit (n div 256), hexDigit (n div 16), hexDigit n]"

text \<open>The table \<open>meta\<close>.\<close>
definition meta :: "char \<Rightarrow> char option" where
  "meta c =
     (if c = CHR 0x08 then Some CHR ''b''
      else if c = CHR 0x09 then Some CHR ''t''
      else if c = CHR 0x0A then Some CHR ''n''
      else if c = CHR 0x0C then Some CHR ''f''
      else if c = CHR 0x0D then Some CHR ''r''
      else if c = CHR 0x22 then Some (CHR 0x22)
      else if c = CHR 0x5C then Some (CHR 0x5C)
      else None)"

text \<open>
  \<open>JSON.stringify(s).slice(1, -1)\<close> for a string \<open>s\<close>: the body of the JSON string
  literal, as the language defines it.
\<close>
definition jsonEscape :: "string \<Rightarrow> string" where
  "jsonEscape s =
     concat (map (\<lambda>c. case meta c of
                          Some m \<Rightarrow> [CHR 0x5C, m]
                        | None \<Rightarrow> if code c < 32 then [CHR 0x5C, CHR ''u''] @ hex4 (code c)
                                  else [c]) s)"

definition quoteReplace :: "token \<Rightarrow> string \<Rightarrow> string" where
  "quoteReplace tk s =
     concat (map (\<lambda>a. if needsEscapeChar a then
                          (case meta a of
                             Some c \<Rightarrow> wrap (t_esc tk) [c]
                           | None \<Rightarrow> wrap (t_uni tk) (hex4 (code a)))
                        else [a]) s)"

definition isKeyword :: "'n jsenv \<Rightarrow> string \<Rightarrow> bool" where
  "isKeyword env v = (v = ''true'' \<or> v = ''false'' \<or> v = ''null''
     \<or> tryParseNumber env v False \<noteq> None)"

definition isChar :: "char \<Rightarrow> bool" where
  "isChar c = (32 \<le> code c \<and> code c \<le> 126 \<and> c \<noteq> CHR 0x27 \<and> c \<noteq> CHR 0x22
     \<and> c \<noteq> CHR ''{'' \<and> c \<noteq> CHR ''}'' \<and> c \<noteq> CHR ''['' \<and> c \<noteq> CHR '']''
     \<and> c \<noteq> CHR '':'' \<and> c \<noteq> CHR '','')"

text \<open>The loop of \<open>isSafeString\<close>, on the rest of the string from index \<open>i\<close>.\<close>
fun safeChars :: "string \<Rightarrow> bool" where
  "safeChars [] = True"
| "safeChars (c # cs) =
     (if (c = CHR ''/'' \<and> (starts ''/'' cs \<or> starts ''*'' cs)) \<or> c = CHR ''#'' then False
      else if \<not> isChar c then False
      else safeChars cs)"

definition isSafeString :: "'n jsenv \<Rightarrow> string \<Rightarrow> bool" where
  "isSafeString env v =
     (if v = [] then False else if isKeyword env v then False else safeChars v)"

text \<open>\<open>mlString(value, level)\<close>; the lines of the loop, from index \<open>i\<close> of \<open>n\<close>.\<close>
fun mlLines :: "string \<Rightarrow> string \<Rightarrow> nat \<Rightarrow> nat \<Rightarrow> string list \<Rightarrow> string" where
  "mlLines e innerIndent n i [] = []"
| "mlLines e innerIndent n i (line # ls) =
     (if (i = 0 \<or> i = n - 1) \<and> trim line = [] then line else innerIndent @ line)
     @ (if i < n - 1 then e else [])
     @ mlLines e innerIndent n (i + 1) ls"

definition mlString :: "'n settings \<Rightarrow> string \<Rightarrow> nat \<Rightarrow> string" where
  "mlString cfg v level =
     (let lines = split_on (CHR 0x0A) (filter (\<lambda>c. c \<noteq> CHR 0x0D) v);
          multilineStringIndent = repeat (s_indent cfg) (level + 1);
          mstr = t_mstr (s_token cfg)
      in if length lines = 1 \<and> \<not> str_includes v [CHR 0x27, CHR 0x27, CHR 0x27] then
           multilineStringIndent @ fst mstr @ v @ snd mstr
         else
           multilineStringIndent @ fst mstr @ s_eol cfg
           @ mlLines (s_eol cfg) multilineStringIndent (length lines) 0 lines
           @ (if v = [] \<or> last v \<noteq> CHR 0x0A then s_eol cfg else [])
           @ multilineStringIndent @ snd mstr)"

definition quotelessString :: "'n jsenv \<Rightarrow> 'n settings \<Rightarrow> string \<Rightarrow> string \<Rightarrow> nat \<Rightarrow> bool
    \<Rightarrow> bool \<Rightarrow> string" where
  "quotelessString env cfg v sep level isRootObject hasComment =
     (if s_quoteStrings cfg \<or> hasComment \<or> sep \<noteq> [] \<or> needsQuotes v
         \<or> tryParseNumber env v True \<noteq> None \<or> startsWithKeyword v then
        (if \<not> needsEscapeML (s_multiline cfg) v \<and> \<not> isRootObject \<and> s_multiline cfg \<noteq> 0 then
           mlString cfg v level
         else if \<not> needsEscape v then wrap (t_qstr (s_token cfg)) v
         else wrap (t_qstr (s_token cfg)) (quoteReplace (s_token cfg) v))
      else wrap (t_str (s_token cfg)) v)"

definition quoteKey :: "'n jsenv \<Rightarrow> 'n settings \<Rightarrow> string \<Rightarrow> string" where
  "quoteKey env cfg key =
     (if key = ''null'' \<and> \<not> s_quoteKeys cfg then wrap (t_key (s_token cfg)) key
      else if s_quoteKeys cfg \<or> \<not> isSafeString env key then
        wrap (t_qkey (s_token cfg)) (jsonEscape key)
      else wrap (t_key (s_token cfg)) key)"

text \<open>
  \<open>forceComment\<close>, one line: \<open>Some True\<close> when the line has to be prefixed, \<open>Some False\<close>
  when it is a comment line or blank, \<open>None\<close> when it opens a block comment (the loop over
  the lines then ends).
\<close>
fun scanLine :: "string \<Rightarrow> bool option" where
  "scanLine [] = Some False"
| "scanLine (c # cs) =
     (if c = CHR ''#'' then Some False
      else if c = CHR ''/'' \<and> (starts ''/'' cs \<or> starts ''*'' cs) then
        (if starts ''*'' cs then None else Some False)
      else if 32 < code c then Some True
      else scanLine cs)"

fun forceLines :: "string list \<Rightarrow> string list" where
  "forceLines [] = []"
| "forceLines (str # ls) =
     (case scanLine str of
        None \<Rightarrow> str # ls
      | Some True \<Rightarrow> (''# '' @ str) # forceLines ls
      | Some False \<Rightarrow> str # forceLines ls)"

definition forceComment :: "string \<Rightarrow> string" where
  "forceComment text =
     (if text = [] then [] else join [CHR 0x0A] (forceLines (split_on (CHR 0x0A) text)))"

text \<open>Truthiness of a string that may be \<open>undefined\<close>.\<close>
definition truthy :: "string option \<Rightarrow> bool" where
  "truthy s = (case s of None \<Rightarrow> False | Some x \<Rightarrow> x \<noteq> [])"

text \<open>\<open>s || ""\<close>\<close>
definition orEmpty :: "string option \<Rightarrow> string" where
  "orEmpty s = (case s of None \<Rightarrow> [] | Some x \<Rightarrow> x)"

definition startsWithNL :: "string \<Rightarrow> bool" where
  "startsWithNL str =
     (str \<noteq> [] \<and> charAt str (if hd str = CHR 0x0D then 1 else 0) = Some (CHR 0x0A))"

definition commentOnThisLine :: "string option \<Rightarrow> bool" where
  "commentOnThisLine str = (truthy str \<and> \<not> startsWithNL (orEmpty str))"

text \<open>\<open>makeComment(str, prefix, trim)\<close> of the stringifier.\<close>
definition makeComment :: "token \<Rightarrow> string \<Rightarrow> string \<Rightarrow> bool \<Rightarrow> string" where
  "makeComment tk str0 prefix trm =
     (if str0 = [] then []
      else let str = forceComment str0;
               len = length str;
               i = length (takeWhile leSpace str);
               str' = (if trm \<and> 0 < i then drop i str else str)
           in if i < len then prefix @ wrap (t_rem tk) str' else str')"

subsection \<open>The tree walk\<close>

text \<open>
  The text of one comment with its line feeds turned into an end of line and the indent:
  \<open>.replace(/\n/g, eol + indent2)\<close>.
\<close>
definition reindent :: "'n settings \<Rightarrow> string \<Rightarrow> string \<Rightarrow> string" where
  "reindent cfg indent2 s = replace_all_nl (s_eol cfg @ indent2) s"

text \<open>
  The lines of one member, around the text of its value: the comment before, the value
  (with the key, for a property), the comma \<open>com\<close>, the comment after, the end of line.
  The value is rendered by \<open>f\<close>, given the argument \<open>hasComment\<close>.
\<close>
definition memberLines :: "'n settings \<Rightarrow> string \<Rightarrow> centry option \<Rightarrow> string \<Rightarrow> string
    \<Rightarrow> (bool \<Rightarrow> error + string) \<Rightarrow> error + string" where
  "memberLines cfg indent2 comment key com f =
     (let b = (case comment of None \<Rightarrow> None | Some c \<Rightarrow> prop_b c);
          a = (case comment of None \<Rightarrow> None | Some c \<Rightarrow> prop_a c);
          tk = s_token cfg
      in case f (comment \<noteq> None \<and> (commentOnThisLine a \<or> truthy b)) of
           Inl e \<Rightarrow> Inl e
         | Inr vs \<Rightarrow>
             Inr ((if truthy b then
                     indent2 @ reindent cfg indent2 (makeComment tk (orEmpty b) [] False) @ s_eol cfg
                   else [])
                  @ indent2 @ key @ vs @ com
                  @ (if truthy a then
                       reindent cfg indent2
                         (makeComment tk (orEmpty a) (if commentOnThisLine a then '' '' else [])
                            (commentOnThisLine a))
                     else [])
                  @ s_eol cfg))"

text \<open>
  \<open>WhitespaceAndComments.a[i]\<close>: reading an index of \<open>a\<close> when the store has no \<open>a\<close> is a
  \<open>TypeError\<close>.
\<close>
definition arrayComment :: "comments option \<Rightarrow> nat \<Rightarrow> error + centry option" where
  "arrayComment wsc i =
     (case wsc of
        None \<Rightarrow> Inr None
      | Some w \<Rightarrow>
          (case ca w of
             None \<Rightarrow> throw (TypeError ''Cannot read properties of undefined'')
           | Some a \<Rightarrow> Inr (if i < length a then a ! i else None)))"

text \<open>The loop over the elements of an array, from index \<open>i\<close> of \<open>n\<close>.\<close>
fun arrayLines :: "'n settings \<Rightarrow> comments option \<Rightarrow> string \<Rightarrow> nat \<Rightarrow> nat
    \<Rightarrow> (bool \<Rightarrow> error + string) list \<Rightarrow> error + string" where
  "arrayLines cfg wsc indent2 n i [] = Inr []"
| "arrayLines cfg wsc indent2 n i (f # fs) =
     (case arrayComment wsc i of
        Inl e \<Rightarrow> Inl e
      | Inr comment \<Rightarrow>
          (case memberLines cfg indent2 comment []
                  (if i < n - 1 then fst (t_com (s_token cfg)) else []) f of
             Inl e \<Rightarrow> Inl e
           | Inr l \<Rightarrow>
               (case arrayLines cfg wsc indent2 n (i + 1) fs of
                  Inl e \<Rightarrow> Inl e
                | Inr rest \<Rightarrow> Inr (l @ rest))))"

text \<open>The lines for the comments \<open>e\<close> just inside the closing bracket.\<close>
definition endLines :: "'n settings \<Rightarrow> comments option \<Rightarrow> string \<Rightarrow> error + string" where
  "endLines cfg wsc indent2 =
     (case wsc of
        None \<Rightarrow> Inr []
      | Some w \<Rightarrow>
          (case ce w of
             None \<Rightarrow> Inr []
           | Some (e0, e1) \<Rightarrow>
               (case e0 of
                  None \<Rightarrow> throw (TypeError ''Cannot read properties of undefined'')
                | Some s0 \<Rightarrow>
                    Inr (indent2 @ reindent cfg indent2 s0 @ s_eol cfg
                         @ (if truthy e1 then indent2 @ reindent cfg indent2 (orEmpty e1) @ s_eol cfg
                            else [])))))"

text \<open>
  The loop over the keys \<open>keys2\<close> of an object. \<open>children\<close> gives, for each enumerable
  property, the rendering of its value as a function of \<open>hasComment\<close>. The test
  \<open>hasOwnProperty\<close> also finds the hidden property: when the key order of a store names
  \<open>__COMMENTS__\<close>, the source writes the store itself as a member, which the model leaves
  unspecified.
\<close>
fun objectLines :: "'n jsenv \<Rightarrow> 'n settings \<Rightarrow> comments option \<Rightarrow> string \<Rightarrow> string
    \<Rightarrow> (string \<times> (bool \<Rightarrow> error + string)) list \<Rightarrow> string list \<Rightarrow> error + string" where
  "objectLines env cfg wsc indent2 separator2 children [] = Inr []"
| "objectLines env cfg wsc indent2 separator2 children (key # keys) =
     (if key = commentsKey \<and> wsc \<noteq> None then undefined
      else
        (case (if key = ''__COMMENTS'' then None else map_of children key) of
           None \<Rightarrow> objectLines env cfg wsc indent2 separator2 children keys
         | Some f \<Rightarrow>
             (case memberLines cfg indent2
                     (case wsc of None \<Rightarrow> None
                      | Some w \<Rightarrow> (case cc w of None \<Rightarrow> None | Some c \<Rightarrow> map_of c key))
                     (quoteKey env cfg key @ fst (t_col (s_token cfg)) @ '' '')
                     (if separator2 \<noteq> [] then fst (t_com (s_token cfg)) else []) f of
                Inl e \<Rightarrow> Inl e
              | Inr l \<Rightarrow>
                  (case objectLines env cfg wsc indent2 separator2 children keys of
                     Inl e \<Rightarrow> Inl e
                   | Inr rest \<Rightarrow> Inr (l @ rest)))))"

text \<open>The first error of a list of results, or all the results.\<close>
fun allResults :: "(error + 'a) list \<Rightarrow> error + 'a list" where
  "allResults [] = Inr []"
| "allResults (r # rs) =
     (case r of
        Inl e \<Rightarrow> Inl e
      | Inr x \<Rightarrow> (case allResults rs of Inl e \<Rightarrow> Inl e | Inr xs \<Rightarrow> Inr (x # xs)))"

text \<open>
  The head of \<open>visit\<close>: \<open>const dsfValue = runDsf(value); if (dsfValue !== undefined)
  return dsfValue;\<close> and otherwise the rest \<open>k\<close>.
\<close>
definition dsfFirst :: "'n settings \<Rightarrow> 'n hvalue \<Rightarrow> error + string \<Rightarrow> error + string" where
  "dsfFirst cfg v k =
     (case runDsf_stringify (s_runDsf cfg) v of
        Inl e \<Rightarrow> Inl e
      | Inr (Some dsfValue) \<Rightarrow> Inr dsfValue
      | Inr None \<Rightarrow> k)"

text \<open>
  The condensed form of an array, from the texts of its elements:
  \<open>res2 = '[ ' + elements joined by token.com[0] + ' ' + ' ]'\<close>, kept when
  \<open>res2.length <= condense\<close>. \<open>None\<close> is "does not fit".
\<close>
definition condensedArray :: "'n settings \<Rightarrow> (error + string) list \<Rightarrow> error + string option" where
  "condensedArray cfg rs =
     (case allResults rs of
        Inl e \<Rightarrow> Inl e
      | Inr xs \<Rightarrow>
          (let res2 = ''[ '' @ join (fst (t_com (s_token cfg)) @ '' '') xs @ '' ]''
           in Inr (if int (length res2) \<le> s_condense cfg then Some res2 else None)))"

text \<open>The form of an array with one element on each line.\<close>
definition arrayText :: "'n settings \<Rightarrow> comments option \<Rightarrow> nat \<Rightarrow> (bool \<Rightarrow> error + string) list
    \<Rightarrow> error + string" where
  "arrayText cfg wsc level children =
     (let indent2 = repeat (s_indent cfg) (level + 1);
          indent3 = repeat (s_indent cfg) level
      in case arrayLines cfg wsc indent2 (length children) 0 children of
           Inl e \<Rightarrow> Inl e
         | Inr body \<Rightarrow>
             (case endLines cfg wsc indent2 of
                Inl e \<Rightarrow> Inl e
              | Inr ends \<Rightarrow>
                  Inr (fst (t_arr (s_token cfg)) @ s_eol cfg @ body @ ends
                       @ indent3 @ snd (t_arr (s_token cfg)))))"

text \<open>
  The condensed form of an object with the one property \<open>key\<close>, from the text of its
  value: \<open>res2 = '{' + quoteKey(key) + token.col[0] + ' ' + value + '}'\<close>.
\<close>
definition condensedObject :: "'n jsenv \<Rightarrow> 'n settings \<Rightarrow> string \<Rightarrow> error + string
    \<Rightarrow> error + string option" where
  "condensedObject env cfg key r =
     (case r of
        Inl e \<Rightarrow> Inl e
      | Inr vs \<Rightarrow>
          (let res2 = ''{'' @ quoteKey env cfg key @ fst (t_col (s_token cfg)) @ '' '' @ vs @ ''}''
           in Inr (if int (length res2) \<le> s_condense cfg then Some res2 else None)))"

text \<open>
  The form of an object with one property on each line. The opening brace is written
  when \<open>showBraces\<close> holds; the closing brace is written always.
\<close>
definition objectText :: "'n jsenv \<Rightarrow> 'n settings \<Rightarrow> comments option \<Rightarrow> string \<Rightarrow> nat \<Rightarrow> bool
    \<Rightarrow> string list \<Rightarrow> (string \<times> (bool \<Rightarrow> error + string)) list \<Rightarrow> error + string" where
  "objectText env cfg wsc separator2 level showBraces keys children =
     (let indent1 = (if showBraces then fst (t_obj (s_token cfg)) else []);
          indent2 = repeat (s_indent cfg) (level + 1);
          indent3 = repeat (s_indent cfg) level;
          opening =
            (if showBraces then
               (if s_bracesSameLine cfg then indent1 @ '' '' else indent1 @ s_eol cfg)
             else []);
          keys2 =
            (case (case wsc of None \<Rightarrow> None | Some w \<Rightarrow> co w) of
               Some order \<Rightarrow> order
             | None \<Rightarrow> if s_sortProps cfg then sort keys else keys)
      in case objectLines env cfg wsc indent2 separator2 children keys2 of
           Inl e \<Rightarrow> Inl e
         | Inr body \<Rightarrow>
             (case endLines cfg wsc indent2 of
                Inl e \<Rightarrow> Inl e
              | Inr ends \<Rightarrow>
                  Inr (opening @ body @ ends @ indent3 @ snd (t_obj (s_token cfg)))))"

text \<open>One of the two forms: the condensed one when it is tried and fits.\<close>
definition condensedOr :: "error + string option \<Rightarrow> error + string \<Rightarrow> error + string" where
  "condensedOr condensed lines =
     (case condensed of
        Inl e \<Rightarrow> Inl e
      | Inr (Some res2) \<Rightarrow> Inr res2
      | Inr None \<Rightarrow> lines)"

text \<open>
  \<open>visit(value, separator, level, rootObject, hasComment)\<close>, one equation for each kind
  of value. The values of the children are rendered by the recursive calls, as functions
  of the arguments \<open>level\<close> and \<open>hasComment\<close> that differ between the condensed and the
  line-by-line form; the loops \<open>arrayLines\<close> and \<open>objectLines\<close> put the lines together
  in the order of the source.
\<close>
fun visit :: "'n jsenv \<Rightarrow> 'n settings \<Rightarrow> 'n hvalue \<Rightarrow> string \<Rightarrow> nat \<Rightarrow> bool \<Rightarrow> bool
    \<Rightarrow> error + string" where
  "visit env cfg Null sep level rootObject hasComment =
     dsfFirst cfg Null (Inr (wrap (t_lit (s_token cfg)) ''null''))"
| "visit env cfg (Bool b) sep level rootObject hasComment =
     dsfFirst cfg (Bool b) (Inr (wrap (t_lit (s_token cfg)) (if b then ''true'' else ''false'')))"
| "visit env cfg (Str s) sep level rootObject hasComment =
     dsfFirst cfg (Str s)
       (if s_quoteStrings cfg then Inr (wrap (t_qstr (s_token cfg)) (jsonEscape s))
        else if s_multiline cfg \<noteq> 0 \<and> \<not> rootObject \<and> CHR 0x0A \<in> set s then
          Inr (CHR 0x0A # mlString cfg s level)
        else Inr (quotelessString env cfg s sep level rootObject False))"
| "visit env cfg (Num n) sep level rootObject hasComment =
     dsfFirst cfg (Num n)
       (case n of
          Finite x \<Rightarrow> Inr (wrap (t_num (s_token cfg)) (numberToString env x))
        | _ \<Rightarrow> Inr (wrap (t_lit (s_token cfg)) ''null''))"
| "visit env cfg (Arr cm vs) sep level rootObject hasComment =
     dsfFirst cfg (Arr cm vs)
       (if vs = [] then Inr ''[]''
        else
          (let wsc = (if s_keepComments cfg then storeOf (Arr cm vs) else None);
               children = map (\<lambda>x. \<lambda>lvl hc. visit env cfg x sep lvl False hc) vs
           in condensedOr
                (if 0 < s_condense cfg \<and> wsc = None \<and> \<not> hasComment then
                   condensedArray cfg (map (\<lambda>f. f 0 False) children)
                 else Inr None)
                (arrayText cfg wsc level (map (\<lambda>f. f (level + 1)) children))))"
| "visit env cfg (Obj cm kvs) sep level rootObject hasComment =
     dsfFirst cfg (Obj cm kvs)
       (if kvs = [] then Inr ''{}''
        else
          (let keys = map fst kvs;
               wsc = (if s_keepComments cfg then storeOf (Obj cm kvs) else None);
               showBraces = rootObject;
               children =
                 map (\<lambda>(k, x). (k, \<lambda>lvl hc. visit env cfg x sep lvl False hc)) kvs
           in condensedOr
                (if 0 < s_condense cfg \<and> wsc = None \<and> \<not> hasComment \<and> length kvs = 1 then
                   condensedObject env cfg (hd keys) (snd (hd children) 0 False)
                 else Inr None)
                (objectText env cfg wsc sep level showBraces keys
                   (map (\<lambda>(k, f). (k, f (level + 1))) children))))"
| "visit env cfg Undefined sep level rootObject hasComment =
     dsfFirst cfg Undefined (Inr (wrap (t_lit (s_token cfg)) ''null''))"
| "visit env cfg Function sep level rootObject hasComment =
     dsfFirst cfg Function (Inr (wrap (t_lit (s_token cfg)) ''null''))"

subsection \<open>The entry point\<close>

text \<open>
  \<open>' '.repeat(count)\<close>: a \<open>RangeError\<close> for a negative count, for \<open>Infinity\<close> and for a
  count above the longest string of the engine; \<open>NaN\<close> counts as 0. This call is the one
  place where the model bounds the length of a string: every other string of the model is
  a list of any length.
\<close>
definition spaces :: "'n jsenv \<Rightarrow> space_opt \<Rightarrow> error + string" where
  "spaces env sp =
     (case sp of
        SpaceNum n \<Rightarrow>
          if n < 0 then throw (RangeError ''Invalid count value'')
          else if maxStringLength env < n then throw (RangeError ''Invalid string length'')
          else Inr (repeat '' '' (nat n))
      | SpaceNaN \<Rightarrow> Inr []
      | SpaceInfinity \<Rightarrow> throw (RangeError ''Invalid count value'')
      | SpaceNegInfinity \<Rightarrow> throw (RangeError ''Invalid count value'')
      | SpaceStr s \<Rightarrow> Inr s)"

text \<open>The constants of \<open>stringify\<close>, from the options after the alias is replaced.\<close>
definition settings_of :: "'n jsenv \<Rightarrow> 'n stringify_options \<Rightarrow> error + 'n settings" where
  "settings_of env opt =
     (case (case space opt of
              Some sp \<Rightarrow> spaces env sp
            | None \<Rightarrow> Inr ''  '') of
        Inl e \<Rightarrow> Inl e
      | Inr ind \<Rightarrow>
          (let quoteStrings' = (quotes opt = Some QAll \<or> quotes opt = Some QStrings
                                \<or> separator opt = Some True)
           in case loadDsf (dsf opt) of
                Inl e \<Rightarrow> Inl e
              | Inr hooks \<Rightarrow>
                  Inr \<lparr>s_token = (if colors opt = Some True then ColorToken else plainToken),
                       s_eol = (case eol opt of Some e \<Rightarrow> e | None \<Rightarrow> getEOL env),
                       s_indent = ind,
                       s_keepComments =
                         (case keepWhitespaceAndComments opt of Some k \<Rightarrow> k | None \<Rightarrow> False),
                       s_bracesSameLine =
                         (case bracesSameLine opt of Some k \<Rightarrow> k | None \<Rightarrow> False),
                       s_quoteKeys = (quotes opt = Some QAll \<or> quotes opt = Some QKeys),
                       s_quoteStrings = quoteStrings',
                       s_condense = (case condense opt of Some k \<Rightarrow> k | None \<Rightarrow> 0),
                       s_multiline =
                         (if quoteStrings' then 0
                          else case multiline opt of
                                 None \<Rightarrow> 1 | Some MStd \<Rightarrow> 1 | Some MNoTabs \<Rightarrow> 2 | Some MOff \<Rightarrow> 0),
                       s_separator = (if separator opt = Some True then '','' else []),
                       s_sortProps = (case sortProps opt of Some k \<Rightarrow> k | None \<Rightarrow> False),
                       s_runDsf = hooks\<rparr>))"

text \<open>\<open>(common.getComment(value) || {}).r\<close>\<close>
definition rootComments :: "'n hvalue \<Rightarrow> (string option \<times> string option) option" where
  "rootComments v = (case storeOf v of None \<Rightarrow> None | Some w \<Rightarrow> cr w)"

text \<open>\<open>if (comments && comments[0]) result = comments[0] + '\n';\<close>\<close>
definition rootHeader :: "bool \<Rightarrow> 'n hvalue \<Rightarrow> string" where
  "rootHeader keep v =
     (case (if keep then rootComments v else None) of
        Some (c0, c1) \<Rightarrow> if truthy c0 then orEmpty c0 @ [CHR 0x0A] else []
      | None \<Rightarrow> [])"

text \<open>\<open>if (comments) result += comments[1] || "";\<close>\<close>
definition rootFooter :: "bool \<Rightarrow> 'n hvalue \<Rightarrow> string" where
  "rootFooter keep v =
     (case (if keep then rootComments v else None) of
        Some (c0, c1) \<Rightarrow> orEmpty c1
      | None \<Rightarrow> [])"

text \<open>The body of \<open>stringify\<close> after the handling of the legacy spelling of \<open>quotes\<close>.\<close>
definition stringify_with :: "'n jsenv \<Rightarrow> 'n hvalue \<Rightarrow> 'n stringify_options \<Rightarrow> error + string" where
  "stringify_with env v opt =
     (case settings_of env opt of
        Inl e \<Rightarrow> Inl e
      | Inr cfg \<Rightarrow>
          (case visit env cfg v (s_separator cfg) 0 True False of
             Inl e \<Rightarrow> Inl e
           | Inr body \<Rightarrow>
               Inr (rootHeader (s_keepComments cfg) v @ body @ rootFooter (s_keepComments cfg) v)))"

text \<open>
  \<open>stringify(value, opt)\<close>: \<open>if (opt?.quotes === 'always') opt.quotes = 'strings';\<close> and
  then the rest.
\<close>
definition stringify :: "'n jsenv \<Rightarrow> 'n hvalue \<Rightarrow> 'n stringify_options \<Rightarrow> error + string" where
  "stringify env v opt =
     stringify_with env v
       (if quotes opt = Some QAlways then opt\<lparr>quotes := Some QStrings\<rparr> else opt)"

section \<open>The parser\<close>

subsection \<open>Cursor and errors\<close>

text \<open>\<open>resetAt()\<close>: \<open>at = 0; ch = ' '\<close>\<close>
definition resetAt :: cursor where
  "resetAt = \<lparr>at = 0, ch = Some (CHR '' '')\<rparr>"

text \<open>\<open>peek(offs)\<close> for an offset that is not negative.\<close>
definition peek :: "string \<Rightarrow> cursor \<Rightarrow> nat \<Rightarrow> char option" where
  "peek text c offs = charAt text (at c + offs)"

definition isPunctuatorChar :: "char \<Rightarrow> bool" where
  "isPunctuatorChar c = (c = CHR ''{'' \<or> c = CHR ''}'' \<or> c = CHR ''['' \<or> c = CHR '']''
     \<or> c = CHR '','' \<or> c = CHR '':'')"

text \<open>
  The first loop of \<open>error\<close>, from index \<open>i\<close> down: the number of characters counted
  into \<open>col\<close> (\<open>for (i = at - 1; i > 0 && text[i] !== '\n'; i--, col++) {}\<close>).
\<close>
fun colScan :: "string \<Rightarrow> nat \<Rightarrow> nat" where
  "colScan text 0 = 0"
| "colScan text (Suc j) =
     (if charAt text (Suc j) = Some (CHR 0x0A) then 0 else Suc (colScan text j))"

text \<open>
  The second loop of \<open>error\<close>, from index \<open>i\<close> down: the number of line feeds at the
  indices \<open>i, ..., 1\<close> (\<open>for (; i > 0; i--) if (text[i] === '\n') line++;\<close>).
\<close>
fun lineScan :: "string \<Rightarrow> nat \<Rightarrow> nat" where
  "lineScan text 0 = 0"
| "lineScan text (Suc j) =
     (if charAt text (Suc j) = Some (CHR 0x0A) then 1 else 0) + lineScan text j"

text \<open>
  \<open>error(m)\<close> at a cursor: the exception with the message \<open>m\<close>, the line, the column and
  the snippet \<open>text.substr(at - col, 20)\<close>.
\<close>
definition error_at :: "string \<Rightarrow> cursor \<Rightarrow> string \<Rightarrow> error" where
  "error_at text c m =
     (let col = colScan text (at c - 1);
          line = 1 + lineScan text (at c - 1 - col)
      in Thrown (ParseError m line col (substr text (at c - col) 20)) None)"

text \<open>The character of \<open>ch\<close> inside a message: nothing at the end of the input.\<close>
definition chText :: "cursor \<Rightarrow> string" where
  "chText c = (case ch c of None \<Rightarrow> [] | Some x \<Rightarrow> [x])"

subsection \<open>White space and comments\<close>

definition atLineComment :: "string \<Rightarrow> cursor \<Rightarrow> bool" where
  "atLineComment text c =
     (ch c = Some (CHR ''#'') \<or> (ch c = Some (CHR ''/'') \<and> peek text c 0 = Some (CHR ''/'')))"

definition atBlockComment :: "string \<Rightarrow> cursor \<Rightarrow> bool" where
  "atBlockComment text c = (ch c = Some (CHR ''/'') \<and> peek text c 0 = Some (CHR ''*''))"

definition notLineEnd :: "cursor \<Rightarrow> bool" where
  "notLineEnd c = (ch c \<noteq> Some (CHR 0x0A))"

definition notBlockEnd :: "string \<Rightarrow> cursor \<Rightarrow> bool" where
  "notBlockEnd text c = (\<not> (ch c = Some (CHR ''*'') \<and> peek text c 0 = Some (CHR ''/'')))"

lemma remaining_nextc_le: "remaining tx (nextc tx c) \<le> remaining tx c"
  by (auto simp: remaining_def nextc_def charAt_def)

lemma remaining_nextc_less: "ch c \<noteq> None \<Longrightarrow> remaining tx (nextc tx c) < remaining tx c"
  by (auto simp: remaining_def nextc_def charAt_def)

lemma remaining_skip_while_le: "remaining tx (skip_while p tx c) \<le> remaining tx c"
proof (induction p tx c rule: skip_while.induct)
  case (1 p tx c)
  show ?case
  proof (cases "ch c \<noteq> None \<and> p c")
    case True
    then have "skip_while p tx c = skip_while p tx (nextc tx c)"
      by (subst skip_while.simps) simp
    with 1 True remaining_nextc_le[of tx c] show ?thesis by simp
  next
    case False
    then show ?thesis by (subst skip_while.simps) auto
  qed
qed

lemma remaining_skip_while_less:
  "ch c \<noteq> None \<Longrightarrow> p c \<Longrightarrow> remaining tx (skip_while p tx c) < remaining tx c"
  using remaining_skip_while_le[of tx p "nextc tx c"] remaining_nextc_less[of c tx]
  by (subst skip_while.simps) simp

text \<open>\<open>white()\<close>\<close>
function white :: "string \<Rightarrow> cursor \<Rightarrow> cursor" where
  "white text c =
     (if ch c = None then c
      else
        (let c1 = skip_while chLeSpace text c
         in if atLineComment text c1 then white text (skip_while notLineEnd text c1)
            else if atBlockComment text c1 then
              (let c2 = skip_while (notBlockEnd text) text (nextc text (nextc text c1))
               in white text (if ch c2 \<noteq> None then nextc text (nextc text c2) else c2))
            else c1))"
  by pat_completeness auto
termination white
proof (relation "measure (\<lambda>(tx, c). remaining tx c)", goal_cases)
  case 1
  then show ?case by simp
next
  case (2 tx c c1)
  then have "ch c1 \<noteq> None" and "notLineEnd c1"
    by (auto simp: atLineComment_def notLineEnd_def)
  then have "remaining tx (skip_while notLineEnd tx c1) < remaining tx c1"
    by (rule remaining_skip_while_less)
  with 2 remaining_skip_while_le[of tx chLeSpace c] show ?case by simp
next
  case (3 tx c c1 c2)
  then have n: "ch c1 \<noteq> None" by (auto simp: atBlockComment_def)
  have "remaining tx c2 \<le> remaining tx (nextc tx (nextc tx c1))"
    using 3 remaining_skip_while_le by simp
  also have "\<dots> \<le> remaining tx (nextc tx c1)" by (rule remaining_nextc_le)
  also have "\<dots> < remaining tx c1" using n by (rule remaining_nextc_less)
  finally have a: "remaining tx c2 < remaining tx c" 
    using 3 remaining_skip_while_le[of tx chLeSpace c] by simp
  have "remaining tx (nextc tx (nextc tx c2)) \<le> remaining tx c2"
    using remaining_nextc_le[of tx "nextc tx c2"] remaining_nextc_le[of tx c2] by simp
  with a show ?case by simp
qed

declare white.simps [simp del]

subsection \<open>Strings\<close>

text \<open>The table \<open>escapee\<close>.\<close>
definition escapee :: "char \<Rightarrow> char option" where
  "escapee c =
     (if c = CHR 0x22 then Some (CHR 0x22)
      else if c = CHR 0x27 then Some (CHR 0x27)
      else if c = CHR 0x5C then Some (CHR 0x5C)
      else if c = CHR ''/'' then Some (CHR ''/'')
      else if c = CHR ''b'' then Some (CHR 0x08)
      else if c = CHR ''f'' then Some (CHR 0x0C)
      else if c = CHR ''n'' then Some (CHR 0x0A)
      else if c = CHR ''r'' then Some (CHR 0x0D)
      else if c = CHR ''t'' then Some (CHR 0x09)
      else None)"

definition hexValue :: "char \<Rightarrow> nat option" where
  "hexValue c =
     (if 48 \<le> code c \<and> code c \<le> 57 then Some (code c - 48)
      else if 97 \<le> code c \<and> code c \<le> 102 then Some (code c - 97 + 10)
      else if 65 \<le> code c \<and> code c \<le> 70 then Some (code c - 65 + 10)
      else None)"

text \<open>A string between single quotes, for the messages.\<close>
definition quoted :: "string \<Rightarrow> string" where
  "quoted s = CHR 0x27 # s @ [CHR 0x27]"

text \<open>
  The loop over the four hexadecimal digits of \<open>\uXXXX\<close>, with \<open>n\<close> digits to go and the
  code \<open>uffff\<close> so far.
\<close>
fun unicode4 :: "string \<Rightarrow> nat \<Rightarrow> cursor \<Rightarrow> nat \<Rightarrow> error + (nat \<times> cursor)" where
  "unicode4 text 0 c uffff = Inr (uffff, c)"
| "unicode4 text (Suc n) c uffff =
     (let c1 = nextc text c
      in case (case ch c1 of None \<Rightarrow> None | Some x \<Rightarrow> hexValue x) of
           None \<Rightarrow> Inl (error_at text c1 (''Bad '' @ [CHR 0x5C] @ ''u char '' @ chText c1))
         | Some hex \<Rightarrow> unicode4 text n c1 (uffff * 16 + hex))"

text \<open>\<open>skipIndent()\<close> of \<open>mlString\<close>, with \<open>skip\<close> characters still to skip.\<close>
fun skipIndent :: "string \<Rightarrow> nat \<Rightarrow> cursor \<Rightarrow> cursor" where
  "skipIndent text 0 c = c"
| "skipIndent text (Suc skip) c =
     (case ch c of
        None \<Rightarrow> c
      | Some x \<Rightarrow>
          if leSpace x \<and> x \<noteq> CHR 0x0A then skipIndent text skip (nextc text c) else c)"

lemma remaining_skipIndent_le: "remaining tx (skipIndent tx n c) \<le> remaining tx c"
proof (induction n arbitrary: c)
  case 0
  then show ?case by simp
next
  case (Suc n)
  show ?case
    using Suc[of "nextc tx c"] remaining_nextc_le[of tx c]
    by (auto split: option.splits)
qed

text \<open>
  The indentation of the opening quotes: the characters counted by
  \<open>for (;;) { const c = peek(-indent-5); if (!c || c === '\n') break; indent++; }\<close>
  from the index \<open>j\<close> down.
\<close>
fun backToLineStart :: "string \<Rightarrow> nat \<Rightarrow> nat" where
  "backToLineStart text 0 =
     (if charAt text 0 = None \<or> charAt text 0 = Some (CHR 0x0A) then 0 else 1)"
| "backToLineStart text (Suc j) =
     (if charAt text (Suc j) = None \<or> charAt text (Suc j) = Some (CHR 0x0A) then 0
      else Suc (backToLineStart text j))"

text \<open>The main loop of \<open>mlString\<close>.\<close>
function ml_loop :: "string \<Rightarrow> nat \<Rightarrow> cursor \<Rightarrow> string \<Rightarrow> nat \<Rightarrow> error + (string \<times> cursor)" where
  "ml_loop text indent c acc triple =
     (case ch c of
        None \<Rightarrow> Inl (error_at text c ''Bad multiline string'')
      | Some x \<Rightarrow>
          if x = CHR 0x27 then
            (if triple + 1 = 3 then
               Inr (if acc \<noteq> [] \<and> last acc = CHR 0x0A then butlast acc else acc, nextc text c)
             else ml_loop text indent (nextc text c) acc (triple + 1))
          else
            (let acc1 = acc @ replicate triple (CHR 0x27)
             in if x = CHR 0x0A then
                  ml_loop text indent (skipIndent text indent (nextc text c)) (acc1 @ [x]) 0
                else
                  ml_loop text indent (nextc text c)
                    (if x \<noteq> CHR 0x0D then acc1 @ [x] else acc1) 0))"
  by pat_completeness auto
termination ml_loop
proof (relation "measure (\<lambda>(tx, indent, c, acc, triple). remaining tx c)", goal_cases)
  case 1
  then show ?case by simp
next
  case (2 tx indent c acc triple x)
  then show ?case using remaining_nextc_less[of c tx] by simp
next
  case (3 tx indent c acc triple x acc1)
  then show ?case
    using remaining_nextc_less[of c tx] remaining_skipIndent_le[of tx indent "nextc tx c"]
    by simp
next
  case (4 tx indent c acc triple x acc1)
  then show ?case using remaining_nextc_less[of c tx] by simp
qed

declare ml_loop.simps [simp del]

definition notLineFeedSpace :: "cursor \<Rightarrow> bool" where
  "notLineFeedSpace c = (chLeSpace c \<and> ch c \<noteq> Some (CHR 0x0A))"

text \<open>\<open>mlString()\<close>, entered with \<open>ch\<close> the character after the three opening quotes.\<close>
definition mlStringParse :: "string \<Rightarrow> cursor \<Rightarrow> error + (string \<times> cursor)" where
  "mlStringParse text c =
     (let indent = (if at c < 5 then 0 else backToLineStart text (at c - 5));
          c1 = skip_while notLineFeedSpace text c;
          c2 = (if ch c1 = Some (CHR 0x0A) then skipIndent text indent (nextc text c1) else c1)
      in ml_loop text indent c2 [] 0)"

text \<open>
  \<open>string(allowML)\<close>: the loop \<open>while (next())\<close> with the closing character \<open>exitCh\<close>. A
  code unit \<open>\uXXXX\<close> above 255 is outside the character type of the model.
\<close>
function string_loop :: "string \<Rightarrow> char option \<Rightarrow> bool \<Rightarrow> cursor \<Rightarrow> string \<Rightarrow> error + (string \<times> cursor)" where
  "string_loop text exitCh allowML c acc =
     (let c1 = nextc text c
      in case ch c1 of
           None \<Rightarrow> Inl (error_at text c1 ''Bad string'')
         | Some x \<Rightarrow>
             if Some x = exitCh then
               (let c2 = nextc text c1
                in if allowML \<and> exitCh = Some (CHR 0x27) \<and> ch c2 = Some (CHR 0x27) \<and> acc = [] then
                     mlStringParse text (nextc text c2)
                   else Inr (acc, c2))
             else if x = CHR 0x5C then
               (let c2 = nextc text c1
                in if ch c2 = Some (CHR ''u'') then
                     (case unicode4 text 4 c2 0 of
                        Inl e \<Rightarrow> Inl e
                      | Inr (uffff, c3) \<Rightarrow>
                          string_loop text exitCh allowML c3 (acc @ [char_of uffff]))
                   else
                     (case (case ch c2 of None \<Rightarrow> None | Some y \<Rightarrow> escapee y) of
                        Some e \<Rightarrow> string_loop text exitCh allowML c2 (acc @ [e])
                      | None \<Rightarrow> Inl (error_at text c2 ''Bad string'')))
             else if x = CHR 0x0A \<or> x = CHR 0x0D then
               Inl (error_at text c1 ''Bad string containing newline'')
             else string_loop text exitCh allowML c1 (acc @ [x]))"
  by pat_completeness auto

lemma at_unicode4: "unicode4 tx n c u = Inr (v, c') \<Longrightarrow> at c \<le> at c'"
proof (induction n arbitrary: c u)
  case 0
  then show ?case by simp
next
  case (Suc n)
  from Suc.prems obtain hex where
    r: "unicode4 tx n (nextc tx c) (u * 16 + hex) = Inr (v, c')"
    by (auto simp: Let_def split: option.splits)
  have "at c \<le> at (nextc tx c)" by (simp add: nextc_def)
  with Suc.IH[OF r] show ?case by simp
qed

termination string_loop
proof (relation "measure (\<lambda>(tx, e, a, c, acc). length tx - at c)", goal_cases)
  case 1
  then show ?case by simp
next
  case (2 tx e a c acc c1 x c2 r uffff c3)
  have "at c < length tx" using 2 by (auto simp: nextc_def charAt_def split: if_splits)
  moreover have "at c2 \<le> at c3" using at_unicode4[of tx 4 c2 0 uffff c3] 2 by simp
  moreover have "at c2 = at c + 2" using 2 by (simp add: nextc_def)
  ultimately show ?case by simp
next
  case (3 tx e a c acc c1 x c2 r)
  then show ?case by (auto simp: nextc_def charAt_def split: if_splits)
next
  case (4 tx e a c acc c1 x)
  then show ?case by (auto simp: nextc_def charAt_def split: if_splits)
qed

declare string_loop.simps [simp del]

text \<open>\<open>string(allowML)\<close>, entered with \<open>ch\<close> the opening quote.\<close>
definition stringParse :: "string \<Rightarrow> bool \<Rightarrow> cursor \<Rightarrow> error + (string \<times> cursor)" where
  "stringParse text allowML c = string_loop text (ch c) allowML c []"

subsection \<open>Key names\<close>

text \<open>
  The loop of \<open>keyname\<close>; the variable \<open>space\<close> is \<open>spc\<close>, \<open>None\<close> for \<open>-1\<close>. The error about white space
  is raised after \<open>at = start + space\<close>.
\<close>
function keyname_loop :: "string \<Rightarrow> nat \<Rightarrow> cursor \<Rightarrow> string \<Rightarrow> nat option \<Rightarrow> error + (string \<times> cursor)" where
  "keyname_loop text start c name spc =
     (case ch c of
        None \<Rightarrow>
          Inl (error_at text c ''Found EOF while looking for a key name (check your syntax)'')
      | Some x \<Rightarrow>
          if x = CHR '':'' then
            (if name = [] then
               Inl (error_at text c
                 (''Found '' @ quoted '':'' @
                  '' but no key name (for an empty key name use quotes)''))
             else
               (case spc of
                  None \<Rightarrow> Inr (name, c)
                | Some sp \<Rightarrow>
                    if sp \<noteq> length name then
                      Inl (error_at text (c\<lparr>at := start + sp\<rparr>)
                        ''Found whitespace in your key name (use quotes to include)'')
                    else Inr (name, c)))
          else if leSpace x then
            keyname_loop text start (nextc text c) name
              (if spc = None then Some (length name) else spc)
          else if isPunctuatorChar x then
            Inl (error_at text c
              (''Found '' @ quoted [x] @
               '' where a key name was expected (check your syntax or use quotes if the key name includes {}[],: or whitespace)''))
          else keyname_loop text start (nextc text c) (name @ [x]) spc)"
  by pat_completeness auto
termination keyname_loop
  by (relation "measure (\<lambda>(tx, start, c, name, spc). remaining tx c)")
     (auto simp: remaining_nextc_less)

declare keyname_loop.simps [simp del]

definition keyname :: "string \<Rightarrow> cursor \<Rightarrow> error + (string \<times> cursor)" where
  "keyname text c =
     (if ch c = Some (CHR 0x22) \<or> ch c = Some (CHR 0x27) then stringParse text False c
      else keyname_loop text (at c) c [] None)"

subsection \<open>The comment text between two positions\<close>

text \<open>\<open>text[i]\<close> for an index that may be negative.\<close>
definition textAt :: "string \<Rightarrow> int \<Rightarrow> char option" where
  "textAt text i = (if 0 \<le> i then charAt text (nat i) else None)"

text \<open>\<open>for (i = at - 2; i > cAt && text[i] <= ' ' && text[i] !== '\n'; i--);\<close>\<close>
function backWhite :: "string \<Rightarrow> int \<Rightarrow> int \<Rightarrow> int" where
  "backWhite text cAt i =
     (if i > cAt \<and> (case textAt text i of None \<Rightarrow> False | Some x \<Rightarrow> leSpace x \<and> x \<noteq> CHR 0x0A)
      then backWhite text cAt (i - 1) else i)"
  by pat_completeness auto
termination backWhite
  by (relation "measure (\<lambda>(tx, cAt, i). nat (i - cAt))") auto

declare backWhite.simps [simp del]

text \<open>\<open>text.substr(start, n)\<close> for a start that is not negative; nothing for \<open>n \<le> 0\<close>.\<close>
definition substrInt :: "string \<Rightarrow> int \<Rightarrow> int \<Rightarrow> string" where
  "substrInt text start n = substr text (nat start) (nat n)"

text \<open>\<open>res.indexOf('\n')\<close>\<close>
definition indexOfLF :: "string \<Rightarrow> nat option" where
  "indexOfLF res =
     (if CHR 0x0A \<in> set res then Some (length (takeWhile (\<lambda>x. x \<noteq> CHR 0x0A) res)) else None)"

text \<open>
  \<open>getComment(cAt, first)\<close> of the parser. An undefined \<open>text[i]\<close> compares false with
  \<open><= ' '\<close>. The start \<open>cAt - 1\<close> is never negative where the parser calls it.
\<close>
definition commentText :: "string \<Rightarrow> cursor \<Rightarrow> nat \<Rightarrow> bool \<Rightarrow> string list" where
  "commentText text c cAt0 first =
     (let cAt = int cAt0 - 1;
          i1 = backWhite text cAt (int (at c) - 2);
          i2 = (if textAt text i1 = Some (CHR 0x0A) then i1 - 1 else i1);
          i3 = (if textAt text i2 = Some (CHR 0x0D) then i2 - 1 else i2);
          res = substrInt text cAt (i3 - cAt + 1)
      in if \<exists>x \<in> set res. \<not> leSpace x then
           (case indexOfLF res of
              Some j \<Rightarrow>
                (let c0 = substr res 0 j; c1 = drop (j + 1) res
                 in if first \<and> trim c0 = [] then [c1] else [c0, c1])
            | None \<Rightarrow> [res])
         else [])"

text \<open>\<open>c.join('\n')\<close>\<close>
definition joinLF :: "string list \<Rightarrow> string" where
  "joinLF xs = join [CHR 0x0A] xs"

text \<open>\<open>c[0] || ""\<close> and \<open>c[1] || ""\<close>\<close>
definition nthOrEmpty :: "string list \<Rightarrow> nat \<Rightarrow> string" where
  "nthOrEmpty xs i = (if i < length xs then xs ! i else [])"

subsection \<open>Keywords, numbers and quoteless strings\<close>

text \<open>
  The \<open>switch (chf)\<close> of \<open>tfnns\<close> on the first character of the text read so far: the
  keyword or the number that the text is, if it is one.
\<close>
definition tfnnsToken :: "'n jsenv \<Rightarrow> string \<Rightarrow> 'n hvalue option" where
  "tfnnsToken env v =
     (case v of
        [] \<Rightarrow> None
      | chf # rest \<Rightarrow>
          if chf = CHR ''f'' then (if trim v = ''false'' then Some (Bool False) else None)
          else if chf = CHR ''n'' then (if trim v = ''null'' then Some Null else None)
          else if chf = CHR ''t'' then (if trim v = ''true'' then Some (Bool True) else None)
          else if chf = CHR ''-'' \<or> isDigit chf then
            (case tryParseNumber env v False of Some n \<Rightarrow> Some (Num n) | None \<Rightarrow> None)
          else None)"

definition isEol :: "cursor \<Rightarrow> bool" where
  "isEol c = (ch c = Some (CHR 0x0D) \<or> ch c = Some (CHR 0x0A) \<or> ch c = None)"

text \<open>
  \<open>ch === ',' || ch === '}' || ch === ']' || ch === '#' ||
  ch === '/' && (peek() === '/' || peek() === '*')\<close>
\<close>
definition atStop :: "string \<Rightarrow> cursor \<Rightarrow> bool" where
  "atStop text c =
     (ch c = Some (CHR '','') \<or> ch c = Some (CHR ''}'') \<or> ch c = Some (CHR '']'') \<or>
      ch c = Some (CHR ''#'') \<or>
      (ch c = Some (CHR ''/'') \<and>
       (peek text c 0 = Some (CHR ''/'') \<or> peek text c 0 = Some (CHR ''*''))))"

text \<open>The loop \<open>for (;;)\<close> of \<open>tfnns\<close>, with the text \<open>v\<close> read so far.\<close>
function tfnns_loop :: "'n jsenv \<Rightarrow> 'n dsf list \<Rightarrow> string \<Rightarrow> cursor \<Rightarrow> string \<Rightarrow> error + ('n hvalue \<times> cursor)" where
  "tfnns_loop env hooks text c v =
     (let c1 = nextc text c
      in if isEol c1 \<or> atStop text c1 then
           (case tfnnsToken env v of
              Some tok \<Rightarrow> Inr (tok, c1)
            | None \<Rightarrow>
                if isEol c1 then
                  (case runDsf_parse hooks (trim v) of
                     Inl e \<Rightarrow> Inl e
                   | Inr dsfValue \<Rightarrow>
                       Inr (if dsfValue \<noteq> Undefined then dsfValue else Str (trim v), c1))
                else tfnns_loop env hooks text c1 (v @ chText c1))
         else tfnns_loop env hooks text c1 (v @ chText c1))"
  by pat_completeness auto
termination tfnns_loop
  by (relation "measure (\<lambda>(env, hooks, tx, c, v). length tx - at c)")
     (auto simp: isEol_def nextc_def charAt_def split: if_splits)

declare tfnns_loop.simps [simp del]

text \<open>\<open>isPunctuatorChar(ch)\<close>\<close>
definition chPunctuator :: "cursor \<Rightarrow> bool" where
  "chPunctuator c = (case ch c of None \<Rightarrow> False | Some x \<Rightarrow> isPunctuatorChar x)"

definition punctuatorMessage :: "cursor \<Rightarrow> string" where
  "punctuatorMessage c =
     ''Found a punctuator character '' @ quoted (chText c) @
     '' when expecting a quoteless string (check your syntax)''"

definition tfnns :: "'n jsenv \<Rightarrow> 'n dsf list \<Rightarrow> string \<Rightarrow> cursor \<Rightarrow> error + ('n hvalue \<times> cursor)" where
  "tfnns env hooks text c =
     (if chPunctuator c then Inl (error_at text c (punctuatorMessage c))
      else tfnns_loop env hooks text c (chText c))"

subsection \<open>The hint for a missing closing bracket\<close>

text \<open>\<open>res = search(child, ch) || res\<close> over the children in order: the last that is found.\<close>
fun lastFound :: "string option list \<Rightarrow> string option" where
  "lastFound [] = None"
| "lastFound (r # rs) = (case lastFound rs of Some s \<Rightarrow> Some s | None \<Rightarrow> r)"

text \<open>
  \<open>search(value, ch)\<close> of \<open>errorClosingHint\<close>: the last string in the value that contains
  the character. The loop \<open>for (k in value)\<close> does not see the hidden store.
\<close>
fun search :: "'n hvalue \<Rightarrow> char \<Rightarrow> string option" where
  "search (Str s) x = (if x \<in> set s then Some s else None)"
| "search (Arr cm vs) x = lastFound (map (\<lambda>v. search v x) vs)"
| "search (Obj cm kvs) x = lastFound (map (\<lambda>(k, v). search v x) kvs)"
| "search v x = None"

text \<open>\<open>report(ch)\<close>\<close>
definition report :: "'n hvalue \<Rightarrow> char \<Rightarrow> string" where
  "report v x =
     (case search v x of
        Some possibleErr \<Rightarrow>
          ''found '' @ quoted [x] @ '' in a string value, your mistake could be with:''
          @ [CHR 0x0A] @ ''  > '' @ possibleErr @ [CHR 0x0A]
          @ ''  (unquoted strings contain everything up to the next line!)''
      | None \<Rightarrow> [])"

text \<open>\<open>errorClosingHint(value)\<close>: \<open>report('}') || report(']')\<close>\<close>
definition errorClosingHint :: "'n hvalue \<Rightarrow> string" where
  "errorClosingHint v = (if report v (CHR ''}'') \<noteq> [] then report v (CHR ''}'') else report v (CHR '']''))"

text \<open>
  \<open>catch (e) { e.hint = e.hint || errorClosingHint(partial); throw e; }\<close>, with the array
  or object as far as it is built.
\<close>
fun catchHint :: "'n hvalue \<Rightarrow> error \<Rightarrow> error" where
  "catchHint partial (Thrown f h) =
     Thrown f (if (case h of None \<Rightarrow> False | Some s \<Rightarrow> s \<noteq> []) then h
               else Some (errorClosingHint partial))"

subsection \<open>Properties of an object in the order of the language\<close>

text \<open>\<open>obj[key] = x\<close> on an object that is only read by key.\<close>
fun assoc_set :: "(string \<times> 'a) list \<Rightarrow> string \<Rightarrow> 'a \<Rightarrow> (string \<times> 'a) list" where
  "assoc_set [] key x = [(key, x)]"
| "assoc_set ((k, y) # kvs) key x =
     (if k = key then (k, x) # kvs else (k, y) # assoc_set kvs key x)"

text \<open>The value of a string of digits.\<close>
definition indexValue :: "string \<Rightarrow> int" where
  "indexValue s = foldl (\<lambda>acc x. 10 * acc + (int (code x) - 48)) 0 s"

text \<open>
  An array index as a property name: the canonical numeral of a whole number up to
  \<open>2^32 - 2\<close>. An object lists such keys first, in ascending order, whenever they were
  added.
\<close>
definition isIndexKey :: "string \<Rightarrow> bool" where
  "isIndexKey s =
     (if s \<noteq> [] \<and> length s \<le> 10 \<and> (\<forall>x \<in> set s. isDigit x) \<and> (s = ''0'' \<or> hd s \<noteq> CHR ''0'')
      then indexValue s \<le> 4294967294 else False)"

fun insertIndex :: "(string \<times> 'a) list \<Rightarrow> string \<Rightarrow> 'a \<Rightarrow> (string \<times> 'a) list" where
  "insertIndex [] key x = [(key, x)]"
| "insertIndex ((k, y) # kvs) key x =
     (if isIndexKey k \<and> indexValue k < indexValue key then (k, y) # insertIndex kvs key x
      else (key, x) # (k, y) # kvs)"

text \<open>
  \<open>object[key] = x\<close> on a plain object. An existing property keeps its place; a new one
  goes to the end, or among the array indices. The name \<open>__proto__\<close> is the accessor of
  \<open>Object.prototype\<close>: the assignment makes no own property.
\<close>
definition obj_set :: "(string \<times> 'a) list \<Rightarrow> string \<Rightarrow> 'a \<Rightarrow> (string \<times> 'a) list" where
  "obj_set kvs key x =
     (if key = ''__proto__'' then kvs
      else if key \<in> set (map fst kvs) then assoc_set kvs key x
      else if isIndexKey key then insertIndex kvs key x
      else kvs @ [(key, x)])"

subsection \<open>Values, arrays and objects\<close>

text \<open>
  What the functions of \<open>parse\<close> share: the number interface, the DSF parse hooks, the
  text, and whether comments are kept (\<open>keepComments\<close>, tested for truthiness).
\<close>
record 'n pctx =
  p_env :: "'n jsenv"
  p_hooks :: "'n dsf list"
  p_text :: string
  p_keep :: bool

text \<open>\<open>nextComment || ""\<close>\<close>
definition commentOr :: "string option \<Rightarrow> string" where
  "commentOr nextComment = (case nextComment of None \<Rightarrow> [] | Some s \<Rightarrow> s)"

text \<open>\<open>c[1]\<close> of a result of \<open>getComment\<close>: \<open>undefined\<close> when there is no second part.\<close>
definition secondPart :: "string list \<Rightarrow> string option" where
  "secondPart xs = (if 1 < length xs then Some (xs ! 1) else None)"

text \<open>The entry \<open>[before, after]\<close> that the parser stores for an element or a property.\<close>
definition parsedEntry :: "string \<Rightarrow> string \<Rightarrow> centry" where
  "parsedEntry b a = pair_entry (Some b) (Some (AText a))"

text \<open>\<open>entry[1] += extra\<close> on an entry of the parser.\<close>
definition appendAfter :: "string \<Rightarrow> centry \<Rightarrow> centry" where
  "appendAfter extra e =
     e\<lparr>idx1 := (case idx1 e of Some (AText a) \<Rightarrow> Some (AText (a @ extra)) | other \<Rightarrow> other)\<rparr>"

text \<open>The array that \<open>array()\<close> returns, with its store when comments are kept.\<close>
definition parsedArray :: "bool \<Rightarrow> 'n hvalue list \<Rightarrow> centry list
    \<Rightarrow> (string option \<times> string option) option \<Rightarrow> 'n hvalue" where
  "parsedArray keep elems entries e =
     Arr (if keep then Some \<lparr>ca = Some (map Some entries), cc = None, ce = e, co = None, cr = None\<rparr>
          else None) elems"

text \<open>
  The object as \<open>object()\<close> builds it: its enumerable properties, and when comments are
  kept the maps \<open>c\<close> and \<open>o\<close> and the pair \<open>e\<close> of its store. With comments kept the
  hidden property \<open>__COMMENTS__\<close> exists from the start, so the assignment
  \<open>object[key] = value\<close> for that key puts the value there in the place of the store
  (\<open>b_hidden\<close>), still hidden.
\<close>
record 'n building =
  b_props :: "(string \<times> 'n hvalue) list"
  b_c :: "(string \<times> centry) list"
  b_o :: "string list"
  b_e :: "(string option \<times> string option) option"
  b_hidden :: "'n hvalue option"

definition emptyBuilding :: "'n building" where
  "emptyBuilding = \<lparr>b_props = [], b_c = [], b_o = [], b_e = None, b_hidden = None\<rparr>"

text \<open>
  The object that \<open>object()\<close> returns. A hidden property that holds a payload value which
  is not falsy has no place in the model.
\<close>
definition parsedObject :: "bool \<Rightarrow> 'n building \<Rightarrow> 'n hvalue" where
  "parsedObject keep b =
     (if \<not> keep then Obj None (b_props b)
      else
        (case b_hidden b of
           None \<Rightarrow>
             Obj (Some \<lparr>ca = None, cc = Some (b_c b), ce = b_e b, co = Some (b_o b), cr = None\<rparr>)
               (b_props b)
         | Some pv \<Rightarrow> if plainlyFalsy pv then Obj None (b_props b) else undefined))"

text \<open>\<open>object[key] = value\<close> in \<open>object()\<close>.\<close>
definition storeProperty :: "bool \<Rightarrow> 'n building \<Rightarrow> string \<Rightarrow> 'n hvalue \<Rightarrow> 'n building" where
  "storeProperty keep b key v =
     (if keep \<and> key = commentsKey then b\<lparr>b_hidden := Some v\<rparr>
      else b\<lparr>b_props := obj_set (b_props b) key v\<rparr>)"

text \<open>
  \<open>comments.c[key] = [nextComment||"", c[0]||""]; comments.o.push(key)\<close>. For the key
  \<open>__proto__\<close> the first assignment replaces the prototype of \<open>c\<close>, which the model
  leaves unspecified.
\<close>
definition storeEntry :: "'n building \<Rightarrow> string \<Rightarrow> centry \<Rightarrow> 'n building" where
  "storeEntry b key e =
     (if key = ''__proto__'' then undefined
      else b\<lparr>b_c := assoc_set (b_c b) key e, b_o := b_o b @ [key]\<rparr>)"

text \<open>\<open>comments.c[key][1] += nextComment||""\<close>\<close>
definition closeEntry :: "'n building \<Rightarrow> string \<Rightarrow> string \<Rightarrow> 'n building" where
  "closeEntry b key extra =
     b\<lparr>b_c := map (\<lambda>(k, e). if k = key then (k, appendAfter extra e) else (k, e)) (b_c b)\<rparr>"

text \<open>
  After a value: \<open>cAt = at; white(); if (ch === ',') { next(); cAt = at; white(); }\<close>. The
  result is the cursor and \<open>cAt\<close>.
\<close>
definition afterValue :: "string \<Rightarrow> cursor \<Rightarrow> cursor \<times> nat" where
  "afterValue text c =
     (let c1 = white text c
      in if ch c1 = Some (CHR '','') then
           (let c2 = nextc text c1 in (white text c2, at c2))
         else (c1, at c))"

text \<open>An exception of the callee goes through the handler of the caller.\<close>
definition caught :: "'n hvalue \<Rightarrow> error + 'a \<Rightarrow> error + 'a" where
  "caught partial r = (case r of Inl e \<Rightarrow> Inl (catchHint partial e) | Inr x \<Rightarrow> Inr x)"

text \<open>
  The start of \<open>array()\<close> and of \<open>object(withoutBraces)\<close>, up to the loop: the empty
  array or object that is returned at once, or the cursor and \<open>nextComment\<close> with which
  the loop is entered (\<open>nextComment\<close> is assigned only when comments are kept).
\<close>
datatype 'n opened = Done "'n hvalue \<times> cursor" | Go cursor "string option"

definition arrayOpen :: "'n pctx \<Rightarrow> cursor \<Rightarrow> 'n opened" where
  "arrayOpen P c =
     (let tx = p_text P; c2 = nextc tx c; cAt = at c2; c3 = white tx c2;
          nextComment = (if p_keep P then Some (joinLF (commentText tx c3 cAt True)) else None)
      in if ch c3 = Some (CHR '']'') then
           Done (parsedArray (p_keep P) [] [] (Some (Some (commentOr nextComment), Some [])),
                 nextc tx c3)
         else Go c3 nextComment)"

definition objectOpen :: "'n pctx \<Rightarrow> bool \<Rightarrow> cursor \<Rightarrow> 'n opened" where
  "objectOpen P withoutBraces c =
     (let tx = p_text P;
          c2 = (if \<not> withoutBraces then nextc tx c else c);
          cAt = (if \<not> withoutBraces then at c2 else 1);
          c3 = white tx c2;
          nextComment = (if p_keep P then Some (joinLF (commentText tx c3 cAt True)) else None)
      in if ch c3 = Some (CHR ''}'') \<and> \<not> withoutBraces then
           Done (parsedObject (p_keep P)
                   (emptyBuilding\<lparr>b_e := Some (Some (commentOr nextComment), Some [])\<rparr>),
                 nextc tx c3)
         else Go c3 nextComment)"

text \<open>
  \<open>value()\<close>, the loop \<open>while (ch)\<close> of \<open>array()\<close> and the loop \<open>while (ch)\<close> of \<open>object()\<close>.
  The first argument bounds the number of nested calls and of turns of the loops;
  \<open>None\<close> is a bound that was too small. The loops are entered after the opening bracket,
  the white space and the first comment, with the array or object built so far.
\<close>
fun value_f :: "nat \<Rightarrow> 'n pctx \<Rightarrow> cursor \<Rightarrow> (error + ('n hvalue \<times> cursor)) option"
  and array_loop :: "nat \<Rightarrow> 'n pctx \<Rightarrow> cursor \<Rightarrow> 'n hvalue list \<Rightarrow> centry list \<Rightarrow> string option
    \<Rightarrow> (error + ('n hvalue \<times> cursor)) option"
  and object_loop :: "nat \<Rightarrow> 'n pctx \<Rightarrow> bool \<Rightarrow> cursor \<Rightarrow> 'n building \<Rightarrow> string option
    \<Rightarrow> (error + ('n hvalue \<times> cursor)) option" where
  "value_f 0 P c = None"
| "value_f (Suc n) P c =
     (let tx = p_text P; c1 = white tx c
      in if ch c1 = Some (CHR ''{'') then
           (case objectOpen P False c1 of
              Done r \<Rightarrow> Some (Inr r)
            | Go c3 nextComment \<Rightarrow> object_loop n P False c3 emptyBuilding nextComment)
         else if ch c1 = Some (CHR ''['') then
           (case arrayOpen P c1 of
              Done r \<Rightarrow> Some (Inr r)
            | Go c3 nextComment \<Rightarrow> array_loop n P c3 [] [] nextComment)
         else if ch c1 = Some (CHR 0x27) \<or> ch c1 = Some (CHR 0x22) then
           Some (case stringParse tx True c1 of
                   Inl e \<Rightarrow> Inl e
                 | Inr (s, c2) \<Rightarrow> Inr (Str s, c2))
         else Some (tfnns (p_env P) (p_hooks P) tx c1))"
| "array_loop 0 P c elems entries nextComment = None"
| "array_loop (Suc n) P c elems entries nextComment =
     (let tx = p_text P
      in if ch c = None then
           Some (Inl (catchHint (Arr None elems)
                        (error_at tx c ''End of input while parsing an array (missing ']')'')))
         else
           (case value_f n P c of
              None \<Rightarrow> None
            | Some (Inl e) \<Rightarrow> Some (Inl (catchHint (Arr None elems) e))
            | Some (Inr (v, c1)) \<Rightarrow>
                (let (c2, cAt) = afterValue tx c1;
                     cm = commentText tx c2 cAt False;
                     entries1 = entries @ [parsedEntry (commentOr nextComment) (nthOrEmpty cm 0)];
                     nextComment1 = (if p_keep P then secondPart cm else nextComment)
                 in if ch c2 = Some (CHR '']'') then
                      Some (Inr (parsedArray (p_keep P) (elems @ [v])
                                   (butlast entries1
                                    @ [appendAfter (commentOr nextComment1) (last entries1)])
                                   None,
                                 nextc tx c2))
                    else array_loop n P (white tx c2) (elems @ [v]) entries1 nextComment1)))"
| "object_loop 0 P withoutBraces c b nextComment = None"
| "object_loop (Suc n) P withoutBraces c b nextComment =
     (let tx = p_text P; partial = Obj None (b_props b)
      in if ch c = None then
           (if withoutBraces then Some (Inr (parsedObject (p_keep P) b, c))
            else Some (Inl (catchHint partial
                   (error_at tx c ''End of input while parsing an object (missing '}')''))))
         else
           (case keyname tx c of
              Inl e \<Rightarrow> Some (Inl (catchHint partial e))
            | Inr (key, c1) \<Rightarrow>
                (let c2 = white tx c1
                 in if ch c2 \<noteq> Some (CHR '':'') then
                      Some (Inl (catchHint partial
                        (error_at tx c2 (''Expected '' @ quoted '':'' @ '' instead of ''
                                         @ quoted (chText c2)))))
                    else
                      (case value_f n P (nextc tx c2) of
                         None \<Rightarrow> None
                       | Some (Inl e) \<Rightarrow> Some (Inl (catchHint partial e))
                       | Some (Inr (v, c3)) \<Rightarrow>
                           (let b1 = storeProperty (p_keep P) b key v;
                                (c4, cAt) = afterValue tx c3;
                                cm = commentText tx c4 cAt False;
                                b2 = (if p_keep P then
                                        storeEntry b1 key
                                          (parsedEntry (commentOr nextComment) (nthOrEmpty cm 0))
                                      else b1);
                                nextComment1 = (if p_keep P then secondPart cm else nextComment)
                            in if ch c4 = Some (CHR ''}'') \<and> \<not> withoutBraces then
                                 Some (Inr (parsedObject (p_keep P)
                                              (if p_keep P then
                                                 closeEntry b2 key (commentOr nextComment1)
                                               else b2),
                                            nextc tx c4))
                               else
                                 object_loop n P withoutBraces (white tx c4) b2 nextComment1)))))"

text \<open>\<open>array()\<close> and \<open>object(withoutBraces)\<close>, called at the opening bracket.\<close>
definition array_f :: "nat \<Rightarrow> 'n pctx \<Rightarrow> cursor \<Rightarrow> (error + ('n hvalue \<times> cursor)) option" where
  "array_f fuel P c =
     (case arrayOpen P c of
        Done r \<Rightarrow> Some (Inr r)
      | Go c3 nextComment \<Rightarrow> array_loop fuel P c3 [] [] nextComment)"

definition object_f :: "nat \<Rightarrow> 'n pctx \<Rightarrow> bool \<Rightarrow> cursor
    \<Rightarrow> (error + ('n hvalue \<times> cursor)) option" where
  "object_f fuel P withoutBraces c =
     (case objectOpen P withoutBraces c of
        Done r \<Rightarrow> Some (Inr r)
      | Go c3 nextComment \<Rightarrow> object_loop fuel P withoutBraces c3 emptyBuilding nextComment)"

subsection \<open>The root\<close>

text \<open>
  \<open>const comments = common.createComment(v, common.getComment(v)); comments.r = [b, a];\<close>
  in \<open>checkTrailing\<close>. \<open>createComment\<close> returns what \<open>getComment\<close> gave it: for a value
  that is not an array or object, or has no store, the assignment is a \<open>TypeError\<close>.
\<close>
definition setRootComment :: "'n hvalue \<Rightarrow> string \<Rightarrow> string \<Rightarrow> error + 'n hvalue" where
  "setRootComment v b a =
     (case getComment v of
        Store w \<Rightarrow> Inr (withComment (w\<lparr>cr := Some (Some b, Some a)\<rparr>) v)
      | NoStore \<Rightarrow> throw (TypeError ''Cannot set properties of undefined'')
      | Payload pv \<Rightarrow>
          if plainlyFalsy pv then
            throw (TypeError (if pv = Undefined then ''Cannot set properties of undefined''
                              else if pv = Null then ''Cannot set properties of null''
                              else ''Cannot create property on a primitive''))
          else undefined)"

text \<open>\<open>checkTrailing(v, c)\<close>, after \<open>v\<close> was parsed up to the cursor.\<close>
definition checkTrailing :: "'n pctx \<Rightarrow> string list \<Rightarrow> 'n hvalue \<times> cursor \<Rightarrow> error + 'n hvalue" where
  "checkTrailing P cmts r =
     (let tx = p_text P; v = fst r; cAt = at (snd r); c1 = white tx (snd r)
      in if ch c1 \<noteq> None then
           Inl (error_at tx c1 ''Syntax error, found trailing characters'')
         else if p_keep P then
           (let b = joinLF cmts; a = joinLF (commentText tx c1 cAt False)
            in if a \<noteq> [] \<or> b \<noteq> [] then setRootComment v b a else Inr v)
         else Inr v)"

text \<open>\<open>checkTrailing(f(), c)\<close> for a call \<open>f()\<close> that may throw.\<close>
definition trailing :: "'n pctx \<Rightarrow> string list \<Rightarrow> (error + ('n hvalue \<times> cursor)) option
    \<Rightarrow> (error + 'n hvalue) option" where
  "trailing P cmts r =
     (case r of
        None \<Rightarrow> None
      | Some (Inl e) \<Rightarrow> Some (Inl e)
      | Some (Inr x) \<Rightarrow> Some (checkTrailing P cmts x))"

text \<open>The cursor after the first \<open>white()\<close> of the root, and the comments before the value.\<close>
definition rootStart :: "'n pctx \<Rightarrow> cursor" where
  "rootStart P = white (p_text P) resetAt"

definition rootHead :: "'n pctx \<Rightarrow> string list" where
  "rootHead P = (if p_keep P then commentText (p_text P) (rootStart P) 1 False else [])"

text \<open>\<open>rootValue()\<close>\<close>
definition rootValue :: "nat \<Rightarrow> 'n pctx \<Rightarrow> (error + 'n hvalue) option" where
  "rootValue fuel P =
     (let c = rootStart P; cmts = rootHead P
      in if ch c = Some (CHR ''{'') then trailing P cmts (object_f fuel P False c)
         else if ch c = Some (CHR ''['') then trailing P cmts (array_f fuel P c)
         else trailing P cmts (value_f fuel P c))"

text \<open>
  \<open>legacyRootValue()\<close>: after the two cases of a bracket, the object without braces; when
  that throws, \<open>resetAt()\<close> and a single value; when that throws too, the first exception.
\<close>
definition legacyRootValue :: "nat \<Rightarrow> 'n pctx \<Rightarrow> (error + 'n hvalue) option" where
  "legacyRootValue fuel P =
     (let c = rootStart P; cmts = rootHead P
      in if ch c = Some (CHR ''{'') then trailing P cmts (object_f fuel P False c)
         else if ch c = Some (CHR ''['') then trailing P cmts (array_f fuel P c)
         else
           (case trailing P cmts (object_f fuel P True c) of
              None \<Rightarrow> None
            | Some (Inr v) \<Rightarrow> Some (Inr v)
            | Some (Inl e) \<Rightarrow>
                (case trailing P cmts (value_f fuel P resetAt) of
                   None \<Rightarrow> None
                 | Some (Inr v) \<Rightarrow> Some (Inr v)
                 | Some (Inl e2) \<Rightarrow> Some (Inl e))))"

text \<open>
  \<open>ParseOptions\<close>, every property optional: the three that the interface declares, and
  \<open>keepWsc\<close>, the one that \<open>parse\<close> reads for the comments.
\<close>
record 'n parse_options =
  p_keepWhitespaceAndComments :: "bool option"
  p_dsf :: "'n dsf list option"
  p_legacyRoot :: "bool option"
  p_keepWsc :: "bool option"

definition no_parse_options :: "'n parse_options" where
  "no_parse_options =
     \<lparr>p_keepWhitespaceAndComments = None, p_dsf = None, p_legacyRoot = None, p_keepWsc = None\<rparr>"

text \<open>
  \<open>parse(source, opt)\<close> for a source that is a string:
  \<open>keepComments = opt?.keepWsc; runDsf = loadDsf(opt?.dsf, 'parse');
  legacyRoot = opt?.legacyRoot !== false\<close>.
\<close>
definition parse :: "nat \<Rightarrow> 'n jsenv \<Rightarrow> string \<Rightarrow> 'n parse_options \<Rightarrow> (error + 'n hvalue) option" where
  "parse fuel env source opt =
     (case loadDsf (p_dsf opt) of
        Inl e \<Rightarrow> Some (Inl e)
      | Inr hooks \<Rightarrow>
          (let P = \<lparr>p_env = env, p_hooks = hooks, p_text = source,
                    p_keep = (p_keepWsc opt = Some True)\<rparr>
           in if p_legacyRoot opt \<noteq> Some False then legacyRootValue fuel P
              else rootValue fuel P))"

text \<open>\<open>rt.parse(text, options)\<close>: \<open>opts.keepWhitespaceAndComments = true; parse(text, opts)\<close>\<close>
definition rt_parse :: "nat \<Rightarrow> 'n jsenv \<Rightarrow> string \<Rightarrow> 'n parse_options \<Rightarrow> (error + 'n hvalue) option" where
  "rt_parse fuel env tx options =
     parse fuel env tx (options\<lparr>p_keepWhitespaceAndComments := Some True\<rparr>)"

section \<open>Comment extraction and merge\<close>

subsection \<open>Extraction\<close>

text \<open>Truthiness of the property \<open>a\<close> of a document node: an object is truthy, a string
  when it is not empty.\<close>
definition slotTruthy :: "slot option \<Rightarrow> bool" where
  "slotTruthy a = (case a of None \<Rightarrow> False | Some (AText s) \<Rightarrow> s \<noteq> [] | Some (AMap m) \<Rightarrow> True)"

text \<open>
  \<open>makeComment(b, a)\<close> of the comments module, on two strings: the object \<open>{b, a}\<close> with
  the properties that are truthy, or \<open>undefined\<close>.
\<close>
definition commentPair :: "string option \<Rightarrow> string option
    \<Rightarrow> (string option \<times> string option) option" where
  "commentPair b a =
     (if truthy b \<or> truthy a then
        Some (if truthy b then b else None, if truthy a then a else None)
      else None)"

fun set_b :: "string option \<Rightarrow> cdoc \<Rightarrow> cdoc" where
  "set_b v (CDoc a s ord e r b x) = CDoc a s ord e r v x"

fun set_a :: "slot option \<Rightarrow> cdoc \<Rightarrow> cdoc" where
  "set_a v (CDoc a s ord e r b x) = CDoc v s ord e r b x"

text \<open>
  \<open>saveComment(res, key, ck, c)\<close>: the entry stored at \<open>res[key]\<close>, or \<open>None\<close> when the
  source returns \<open>false\<close> and stores nothing.
\<close>
definition saveComment :: "centry option \<Rightarrow> cdoc option \<Rightarrow> cdoc option" where
  "saveComment ck c =
     (if ck = None \<and> c = None then None
      else
        (let d = (case c of None \<Rightarrow> emptyDoc | Some d \<Rightarrow> d)
         in case ck of
              None \<Rightarrow> Some d
            | Some k \<Rightarrow>
                (let d1 = (if truthy (idx0 k) then set_b (idx0 k) d else d);
                     d2 = (if slotTruthy (idx1 k) then set_a (idx1 k) d1 else d1)
                 in Some d2)))"

text \<open>\<open>comments?.a?.[i]\<close>\<close>
definition storeIndex :: "comments option \<Rightarrow> nat \<Rightarrow> centry option" where
  "storeIndex cm i =
     (case cm of
        None \<Rightarrow> None
      | Some w \<Rightarrow>
          (case ca w of None \<Rightarrow> None | Some a \<Rightarrow> if i < length a then a ! i else None))"

text \<open>\<open>comments?.c?.[key]\<close>\<close>
definition storeKey :: "comments option \<Rightarrow> string \<Rightarrow> centry option" where
  "storeKey cm key =
     (case cm of
        None \<Rightarrow> None
      | Some w \<Rightarrow> (case cc w of None \<Rightarrow> None | Some c \<Rightarrow> map_of c key))"

text \<open>The entries that the loop over the elements of an array stores, from index \<open>i\<close>.\<close>
fun arrayEntries :: "comments option \<Rightarrow> nat \<Rightarrow> cdoc option list \<Rightarrow> (nat \<times> cdoc) list" where
  "arrayEntries cm i [] = []"
| "arrayEntries cm i (c # cs) =
     (case saveComment (storeIndex cm i) c of
        None \<Rightarrow> arrayEntries cm (i + 1) cs
      | Some d \<Rightarrow> (i, d) # arrayEntries cm (i + 1) cs)"

text \<open>The entries that the loop over the keys of an object stores.\<close>
fun objectEntries :: "comments option \<Rightarrow> (string \<times> cdoc option) list \<Rightarrow> string list
    \<Rightarrow> (string \<times> cdoc) list" where
  "objectEntries cm children [] = []"
| "objectEntries cm children (key # keys) =
     (case saveComment (storeKey cm key) (case map_of children key of None \<Rightarrow> None | Some c \<Rightarrow> c) of
        None \<Rightarrow> objectEntries cm children keys
      | Some d \<Rightarrow> (key, d) # objectEntries cm children keys)"

text \<open>
  The key order of the extracted node: the keys of \<open>comments.o\<close> and then the current
  keys, each once, those that the object has.
\<close>
definition extractKeys :: "comments option \<Rightarrow> string list \<Rightarrow> string list" where
  "extractKeys cm currentKeys =
     (case (case cm of None \<Rightarrow> None | Some w \<Rightarrow> co w) of
        Some order \<Rightarrow> rev (remdups (rev (filter (\<lambda>k. k \<in> set currentKeys) (order @ currentKeys))))
      | None \<Rightarrow> currentKeys)"

text \<open>\<open>res.e\<close> and the flag \<open>hasComments\<close> after the loop.\<close>
definition endComment :: "comments option \<Rightarrow> bool
    \<Rightarrow> (string option \<times> string option) option \<times> bool" where
  "endComment cm hasComments =
     (case (case cm of None \<Rightarrow> None | Some w \<Rightarrow> ce w) of
        Some (e0, e1) \<Rightarrow> if \<not> hasComments then (commentPair e0 e1, True) else (None, hasComments)
      | None \<Rightarrow> (None, hasComments))"

text \<open>\<open>res.r\<close> and the flag \<open>hasComments\<close> at the end.\<close>
definition rootComment_of :: "bool \<Rightarrow> comments option \<Rightarrow> bool
    \<Rightarrow> (string option \<times> string option) option \<times> bool" where
  "rootComment_of root cm hasComments =
     (case (if root then (case cm of None \<Rightarrow> None | Some w \<Rightarrow> cr w) else None) of
        Some (r0, r1) \<Rightarrow> (commentPair r0 r1, True)
      | None \<Rightarrow> (None, hasComments))"

text \<open>
  \<open>extractComments(value, root)\<close>. The source removes the annotation store of every node
  it visits that has one (\<open>if (comments) common.removeComment(value)\<close>); the result is
  the document, or \<open>None\<close> for \<open>undefined\<close>, and the value as the call leaves it. After
  the removal the hidden property is still an own property of the object: when the key
  order of the store names \<open>__COMMENTS__\<close> the source takes it for a key of the object,
  which the model leaves unspecified.
\<close>
fun extractComments :: "'n hvalue \<Rightarrow> bool \<Rightarrow> cdoc option \<times> 'n hvalue" where
  "extractComments (Arr cm vs) root =
     (let cm = storeOf (Arr cm vs);
          rs = map (\<lambda>v. extractComments v False) vs;
          entries = arrayEntries cm 0 (map fst rs);
          (e, has1) = endComment cm (entries \<noteq> []);
          (r, has2) = rootComment_of root cm has1
      in (if has2 then Some (CDoc (Some (AMap entries)) None None e r None None) else None,
          Arr None (map snd rs)))"
| "extractComments (Obj cm kvs) root =
     (let cm = storeOf (Obj cm kvs)
      in if (case cm of None \<Rightarrow> False
             | Some w \<Rightarrow> (case co w of None \<Rightarrow> False | Some order \<Rightarrow> commentsKey \<in> set order))
         then undefined
         else
           (let rs = map (\<lambda>(k, v). (k, extractComments v False)) kvs;
                keys = extractKeys cm (map fst kvs);
                entries = objectEntries cm (map (\<lambda>(k, r). (k, fst r)) rs) keys;
                (e, has1) = endComment cm (entries \<noteq> []);
                (r, has2) = rootComment_of root cm has1
            in (if has2 then Some (CDoc None (Some entries) (Some keys) e r None None) else None,
                Obj None (map (\<lambda>(k, r). (k, snd r)) rs))))"
| "extractComments v root = (None, v)"

text \<open>\<open>comments.extract(value)\<close>\<close>
definition comments_extract :: "'n hvalue \<Rightarrow> cdoc option \<times> 'n hvalue" where
  "comments_extract v = extractComments v True"

subsection \<open>Merge\<close>

datatype pathelem = PIdx nat | PKey string

text \<open>
  An orphan: what \<open>droppedComment(path, c)\<close> returns, the object \<open>{b, a}\<close> of
  \<open>makeComment(c.b, c.a)\<close> with the property \<open>path\<close>.
\<close>
record orphan =
  o_b :: "string option"
  o_a :: "slot option"
  o_path :: "pathelem list"

text \<open>
  \<open>droppedComment(path, c)\<close>, given \<open>c.b\<close> and \<open>c.a\<close>. When neither is truthy,
  \<open>makeComment\<close> returns \<open>undefined\<close> and the assignment \<open>res.path = path\<close> is a
  \<open>TypeError\<close>.
\<close>
definition droppedComment :: "pathelem list \<Rightarrow> string option \<Rightarrow> slot option \<Rightarrow> error + orphan" where
  "droppedComment path b a =
     (if truthy b \<or> slotTruthy a then
        Inr \<lparr>o_b = (if truthy b then b else None), o_a = (if slotTruthy a then a else None),
             o_path = path\<rparr>
      else throw (TypeError ''Cannot set properties of undefined''))"

text \<open>
  \<open>dropAll(comments, dropped, path)\<close> and its loop over the keys \<open>comments.o\<close>. An index
  map \<open>comments.a\<close> has no property \<open>length\<close>, so the loop over it does not run; a string
  \<open>comments.a\<close> is read character by character, and the first character has neither
  \<open>b\<close> nor \<open>a\<close>.
\<close>
function dropAll :: "cdoc option \<Rightarrow> orphan list \<Rightarrow> pathelem list \<Rightarrow> error + orphan list"
  and dropKeys :: "(string \<times> cdoc) list option \<Rightarrow> string list \<Rightarrow> orphan list \<Rightarrow> pathelem list
    \<Rightarrow> error + orphan list" where
  "dropAll None dropped path = Inr dropped"
| "dropAll (Some doc) dropped path =
     (case (if slotTruthy (d_a doc) then
              (case d_a doc of
                 Some (AText s) \<Rightarrow>
                   (case droppedComment (path @ [PIdx 0]) None None of
                      Inl e \<Rightarrow> Inl e
                    | Inr c \<Rightarrow> Inr (dropped @ [c]))
               | _ \<Rightarrow> Inr dropped)
            else
              (case d_o doc of
                 None \<Rightarrow> Inr dropped
               | Some keys \<Rightarrow> dropKeys (d_s doc) keys dropped path)) of
        Inl e \<Rightarrow> Inl e
      | Inr dropped1 \<Rightarrow>
          (case d_e doc of
             None \<Rightarrow> Inr dropped1
           | Some (eb, ea) \<Rightarrow>
               (case droppedComment path eb (map_option AText ea) of
                  Inl e \<Rightarrow> Inl e
                | Inr c \<Rightarrow> Inr (dropped1 @ [c]))))"
| "dropKeys s [] dropped path = Inr dropped"
| "dropKeys s (key # keys) dropped path =
     (case s of
        None \<Rightarrow> throw (TypeError ''Cannot read properties of undefined'')
      | Some m \<Rightarrow>
          (case map_of m key of
             None \<Rightarrow> dropKeys s keys dropped path
           | Some c \<Rightarrow>
               (case droppedComment (path @ [PKey key]) (d_b c) (d_a c) of
                  Inl e \<Rightarrow> Inl e
                | Inr orph \<Rightarrow>
                    (case dropAll (d_x c) (dropped @ [orph]) (path @ [PKey key]) of
                       Inl e \<Rightarrow> Inl e
                     | Inr dropped1 \<Rightarrow> dropKeys s keys dropped1 path))))"
  by pat_completeness auto

lemma size_map_of:
  "map_of m key = Some c \<Longrightarrow> size c < Suc (size_list (size_prod (\<lambda>_. 0) size) m)"
  by (induction m) (auto split: if_splits)

lemma size_d_x: "size_option size (d_x c) < size c"
  by (cases c) (auto split: option.splits)

lemma size_d_s: "size_option (size_list (size_prod (\<lambda>_. 0) size)) (d_s c) < size c"
  by (cases c) (auto split: option.splits)

termination dropAll
proof (relation "measures [\<lambda>x. case x of Inl (d, _, _) \<Rightarrow> size_option size d
                                          | Inr (s, keys, _, _) \<Rightarrow>
                                              size_option (size_list (size_prod (\<lambda>_. 0) size)) s,
                            \<lambda>x. case x of Inl _ \<Rightarrow> 0 | Inr (s, keys, _, _) \<Rightarrow> length keys]",
       goal_cases)
  case 1
  then show ?case by simp
next
  case (2 doc dropped path x2)
  then show ?case using size_d_s[of doc] by simp
next
  case (3 s key keys dropped path x2)
  then show ?case by simp
next
  case (4 s key keys dropped path x2 x2a x2b)
  then show ?case using size_map_of[of x2 key x2a] size_d_x[of x2a] by simp
next
  case (5 s key keys dropped path x2 x2a x2b x2c)
  then show ?case by simp
qed

text \<open>\<open>a[i] = x\<close> on an array: an index past the end leaves holes.\<close>
definition array_set :: "'a option list \<Rightarrow> nat \<Rightarrow> 'a \<Rightarrow> 'a option list" where
  "array_set a i x =
     (if i < length a then a[i := Some x]
      else a @ replicate (i - length a) None @ [Some x])"

text \<open>The property \<open>key\<close> of an object replaced by the value the merge leaves there.\<close>
fun assoc_replace :: "(string \<times> 'a) list \<Rightarrow> string \<Rightarrow> 'a \<Rightarrow> (string \<times> 'a) list" where
  "assoc_replace [] key x = []"
| "assoc_replace ((k, y) # kvs) key x =
     (if k = key then (k, x) # kvs else (k, y) # assoc_replace kvs key x)"

text \<open>
  The loop of \<open>merge\<close> over a string \<open>comments.a\<close>, index by index: each character is a
  truthy entry with neither \<open>b\<close> nor \<open>a\<close> nor \<open>x\<close>.
\<close>
fun mergeChars :: "nat list \<Rightarrow> comments \<Rightarrow> nat \<Rightarrow> orphan list \<Rightarrow> pathelem list
    \<Rightarrow> comments \<times> (error + orphan list)" where
  "mergeChars [] setComments n dropped path = (setComments, Inr dropped)"
| "mergeChars (i # keys) setComments n dropped path =
     (if i < n then
        mergeChars keys
          (setComments\<lparr>ca := Some (array_set (case ca setComments of None \<Rightarrow> [] | Some a \<Rightarrow> a) i
                                      (pair_entry None None))\<rparr>)
          n dropped path
      else
        (case droppedComment (path @ [PIdx i]) None None of
           Inl e \<Rightarrow> (setComments, Inl e)
         | Inr orph \<Rightarrow> mergeChars keys setComments n (dropped @ [orph]) path))"

text \<open>
  \<open>common.getComment(value) || {}\<close>, the store that \<open>merge\<close> hands to \<open>createComment\<close>
  and then writes to: the store of the value, or a new empty one when
  \<open>value.__COMMENTS__\<close> is absent or falsy. When it is another payload property, the
  source hides that property and writes the comments into its value; the value of a
  hidden property that is not a store has no place in the model (\<open>None\<close>).
\<close>
definition mergeStore :: "'n hvalue \<Rightarrow> comments option" where
  "mergeStore v =
     (case getComment v of
        NoStore \<Rightarrow> Some no_comments
      | Store w \<Rightarrow> Some w
      | Payload pv \<Rightarrow> if plainlyFalsy pv then Some no_comments else None)"

text \<open>
  \<open>merge(comments, value, dropped, path)\<close> with its loop over the indices of
  \<open>comments.a\<close> (\<open>for (const key in a)\<close>, in ascending order) and its loop over the keys
  \<open>comments.o\<close>. The value is changed in place; the first component of the result is the
  value as the call leaves it, also when it throws. \<open>createComment\<close> runs first, so a
  payload property \<open>__COMMENTS__\<close> of an object is hidden from then on, and
  \<open>hasOwnProperty(value, key)\<close> holds for the key \<open>__COMMENTS__\<close>: for that key in
  \<open>comments.o\<close> the source merges into the store itself as if it were the child. The
  model leaves the result unspecified there, and where \<open>mergeStore\<close> has no store.
\<close>
function merge :: "cdoc option \<Rightarrow> 'n hvalue \<Rightarrow> orphan list \<Rightarrow> pathelem list
    \<Rightarrow> 'n hvalue \<times> (error + orphan list)"
  and mergeIndices :: "(nat \<times> cdoc) list \<Rightarrow> nat list \<Rightarrow> comments \<Rightarrow> 'n hvalue list \<Rightarrow> orphan list
    \<Rightarrow> pathelem list \<Rightarrow> (comments \<times> 'n hvalue list) \<times> (error + orphan list)"
  and mergeKeys :: "(string \<times> cdoc) list option \<Rightarrow> string list \<Rightarrow> comments
    \<Rightarrow> (string \<times> 'n hvalue) list \<Rightarrow> orphan list \<Rightarrow> pathelem list
    \<Rightarrow> (comments \<times> (string \<times> 'n hvalue) list) \<times> (error + orphan list)" where
  "merge None v dropped path = (v, Inr dropped)"
| "merge (Some doc) (Arr cm vs) dropped path =
     (let set0 = (case cm of None \<Rightarrow> no_comments | Some w \<Rightarrow> w);
          set1 = (case d_r doc of
                    Some (rb, ra) \<Rightarrow> if path = [] then set0\<lparr>cr := Some (rb, ra)\<rparr> else set0
                  | None \<Rightarrow> set0);
          set2 = set1\<lparr>ca := Some (case ca set1 of None \<Rightarrow> [] | Some a \<Rightarrow> a)\<rparr>;
          keys = (case d_a doc of
                    Some (AMap m) \<Rightarrow> sort (remdups (map fst m))
                  | Some (AText s) \<Rightarrow> [0..<length s]
                  | None \<Rightarrow> []);
          ((set3, vs3), r) =
            (case d_a doc of
               Some (AMap m) \<Rightarrow> mergeIndices m keys set2 vs dropped path
             | Some (AText s) \<Rightarrow>
                 (case mergeChars keys set2 (length vs) dropped path of
                    (set3, r) \<Rightarrow> ((set3, vs), r))
             | None \<Rightarrow> ((set2, vs), Inr dropped))
      in case r of
           Inl e \<Rightarrow> (Arr (Some set3) vs3, Inl e)
         | Inr dropped1 \<Rightarrow>
             (Arr (Some (case d_e doc of
                           Some (eb, ea) \<Rightarrow>
                             if keys \<noteq> [] \<and> last keys = 0 then set3\<lparr>ce := Some (eb, ea)\<rparr>
                             else set3
                         | None \<Rightarrow> set3)) vs3,
              Inr dropped1))"
| "merge (Some doc) (Obj cm kvs) dropped path =
     (case mergeStore (Obj cm kvs) of
        None \<Rightarrow> undefined
      | Some set0 \<Rightarrow>
          (let set1 = (case d_r doc of
                         Some (rb, ra) \<Rightarrow> if path = [] then set0\<lparr>cr := Some (rb, ra)\<rparr> else set0
                       | None \<Rightarrow> set0);
               ((set3, kvs3), r) =
                 mergeKeys (d_s doc) (case d_o doc of None \<Rightarrow> [] | Some keys \<Rightarrow> keys) set1
                   (hideKey kvs) dropped path
           in case r of
                Inl e \<Rightarrow> (Obj (Some set3) kvs3, Inl e)
              | Inr dropped1 \<Rightarrow>
                  (Obj (Some (case d_e doc of
                                Some (eb, ea) \<Rightarrow> set3\<lparr>ce := Some (eb, ea)\<rparr>
                              | None \<Rightarrow> set3)) kvs3,
                   Inr dropped1)))"
| "merge (Some doc) Undefined dropped path = (Undefined, dropAll (Some doc) dropped path)"
| "merge (Some doc) Function dropped path = (Function, dropAll (Some doc) dropped path)"
| "merge (Some doc) Null dropped path = (Null, dropAll (Some doc) dropped path)"
| "merge (Some doc) (Bool b) dropped path = (Bool b, dropAll (Some doc) dropped path)"
| "merge (Some doc) (Num n) dropped path = (Num n, dropAll (Some doc) dropped path)"
| "merge (Some doc) (Str s) dropped path = (Str s, dropAll (Some doc) dropped path)"
| "mergeIndices m [] setComments vs dropped path = ((setComments, vs), Inr dropped)"
| "mergeIndices m (i # keys) setComments vs dropped path =
     (case map_of m i of
        None \<Rightarrow> mergeIndices m keys setComments vs dropped path
      | Some c \<Rightarrow>
          if i < length vs then
            (let set1 = setComments\<lparr>ca := Some (array_set
                          (case ca setComments of None \<Rightarrow> [] | Some a \<Rightarrow> a) i
                          (pair_entry (d_b c) (d_a c)))\<rparr>;
                 (child, r) = merge (d_x c) (vs ! i) dropped (path @ [PIdx i]);
                 vs1 = vs[i := child]
             in case r of
                  Inl e \<Rightarrow> ((set1, vs1), Inl e)
                | Inr dropped1 \<Rightarrow> mergeIndices m keys set1 vs1 dropped1 path)
          else
            (case droppedComment (path @ [PIdx i]) (d_b c) (d_a c) of
               Inl e \<Rightarrow> ((setComments, vs), Inl e)
             | Inr orph \<Rightarrow>
                 (case dropAll (d_x c) (dropped @ [orph]) (path @ [PIdx i]) of
                    Inl e \<Rightarrow> ((setComments, vs), Inl e)
                  | Inr dropped1 \<Rightarrow> mergeIndices m keys setComments vs dropped1 path)))"
| "mergeKeys s [] setComments kvs dropped path = ((setComments, kvs), Inr dropped)"
| "mergeKeys s (key # keys) setComments kvs dropped path =
     (case s of
        None \<Rightarrow> ((setComments, kvs), throw (TypeError ''Cannot read properties of undefined''))
      | Some m \<Rightarrow>
          if key = commentsKey then undefined
          else
          (case map_of kvs key of
             Some v \<Rightarrow>
               (let set1 = (case co setComments of
                              None \<Rightarrow> setComments
                            | Some order \<Rightarrow> setComments\<lparr>co := Some (order @ [key])\<rparr>)
                in case map_of m key of
                     None \<Rightarrow> mergeKeys s keys set1 kvs dropped path
                   | Some c \<Rightarrow>
                       (let set2 = set1\<lparr>cc := Some (assoc_set
                                     (case cc set1 of None \<Rightarrow> [] | Some x \<Rightarrow> x) key
                                     (pair_entry (d_b c) (d_a c)))\<rparr>;
                            (child, r) = merge (d_x c) v dropped (path @ [PKey key]);
                            kvs1 = assoc_replace kvs key child
                        in case r of
                             Inl e \<Rightarrow> ((set2, kvs1), Inl e)
                           | Inr dropped1 \<Rightarrow> mergeKeys s keys set2 kvs1 dropped1 path))
           | None \<Rightarrow>
               (case map_of m key of
                  None \<Rightarrow> mergeKeys s keys setComments kvs dropped path
                | Some c \<Rightarrow>
                    (case droppedComment (path @ [PKey key]) (d_b c) (d_a c) of
                       Inl e \<Rightarrow> ((setComments, kvs), Inl e)
                     | Inr orph \<Rightarrow>
                         (case dropAll (d_x c) (dropped @ [orph]) (path @ [PKey key]) of
                            Inl e \<Rightarrow> ((setComments, kvs), Inl e)
                          | Inr dropped1 \<Rightarrow> mergeKeys s keys setComments kvs dropped1 path)))))"
  by pat_completeness auto

lemma size_map_of_x:
  "map_of m k = Some c \<Longrightarrow> size_option size (d_x c) < size_list (size_prod (\<lambda>_. 0) size) m"
  using size_map_of[of m k c] size_d_x[of c] by linarith

lemma size_d_a:
  "d_a doc = Some (AMap m) \<Longrightarrow> size_list (size_prod (\<lambda>_. 0) size) m < size doc"
  by (cases doc) auto

termination merge
  by (relation "measures
        [\<lambda>x. case x of
                Inl (d, _, _, _) \<Rightarrow> size_option size d
              | Inr (Inl (m, keys, _)) \<Rightarrow> size_list (size_prod (\<lambda>_. 0) size) m
              | Inr (Inr (s, keys, _)) \<Rightarrow> size_option (size_list (size_prod (\<lambda>_. 0) size)) s,
         \<lambda>x. case x of
                Inl _ \<Rightarrow> 0
              | Inr (Inl (m, keys, _)) \<Rightarrow> length keys
              | Inr (Inr (s, keys, _)) \<Rightarrow> length keys]")
     (simp_all add: less_Suc_eq size_d_a size_d_s size_map_of_x)

text \<open>
  \<open>mergeStr(c.b, c.a, c.e)\<close> on an orphan: the parts that are not blank, trimmed and
  joined by \<open>"; "\<close>. An orphan has no property \<open>e\<close>. A property \<open>a\<close> that holds an index
  map has no method \<open>trim\<close>: a \<open>TypeError\<close>.
\<close>
definition mergeStr :: "string option \<Rightarrow> slot option \<Rightarrow> error + string" where
  "mergeStr b a =
     (let res1 = (case b of None \<Rightarrow> [] | Some c \<Rightarrow> if c \<noteq> [] \<and> trim c \<noteq> [] then trim c else [])
      in case a of
           None \<Rightarrow> Inr res1
         | Some (AMap m) \<Rightarrow> throw (TypeError ''c.trim is not a function'')
         | Some (AText c) \<Rightarrow>
             if c \<noteq> [] \<and> trim c \<noteq> [] then
               Inr ((if res1 \<noteq> [] then res1 @ ''; '' else res1) @ trim c)
             else Inr res1)"

text \<open>\<open>path.join('/')\<close>\<close>
definition pathString :: "pathelem list \<Rightarrow> string" where
  "pathString path =
     join ''/'' (map (\<lambda>p. case p of PIdx i \<Rightarrow> natToString i | PKey k \<Rightarrow> k) path)"

text \<open>
  The lines of the footer for the orphans: for each,
  \<open>("# " + c.path.join('/') + ": " + mergeStr(c.b, c.a, c.e)).replace("\n", "\\n ") + "\n"\<close>.
\<close>
fun orphanLines :: "orphan list \<Rightarrow> error + string" where
  "orphanLines [] = Inr []"
| "orphanLines (c # cs) =
     (case mergeStr (o_b c) (o_a c) of
        Inl e \<Rightarrow> Inl e
      | Inr m \<Rightarrow>
          (case orphanLines cs of
             Inl e \<Rightarrow> Inl e
           | Inr rest \<Rightarrow>
               Inr (replace_first_nl [CHR 0x5C, CHR ''n'', CHR '' '']
                      (''# '' @ pathString (o_path c) @ '': '' @ m)
                    @ [CHR 0x0A] @ rest)))"

text \<open>
  The value after \<open>createComment(value, x)\<close> for an \<open>x\<close> that is falsy: the property
  \<open>__COMMENTS__\<close> is hidden and holds no store.
\<close>
fun withoutComment :: "'n hvalue \<Rightarrow> 'n hvalue" where
  "withoutComment (Arr cm vs) = Arr None vs"
| "withoutComment (Obj cm kvs) = Obj None (hideKey kvs)"
| "withoutComment v = v"

text \<open>
  \<open>rootComment(value, setText, header)\<close> for a \<open>setText\<close> that is a string or \<open>null\<close>
  (\<open>None\<close>); both are \<open>!== undefined\<close>, so the comment is set, to
  \<open>forceComment(setText || "")\<close>. It starts with
  \<open>createComment(value, getComment(value))\<close>. Without an annotation store \<open>comment.r\<close>
  is a \<open>TypeError\<close>: the read of a property of \<open>undefined\<close> or \<open>null\<close>, or, in the
  strict mode of a module, the assignment of a property to \<open>false\<close>, \<open>""\<close> or \<open>NaN\<close>.
  A payload property that is not falsy is again outside the model.
\<close>
definition rootComment :: "'n hvalue \<Rightarrow> string option \<Rightarrow> nat \<Rightarrow> 'n hvalue \<times> (error + string)" where
  "rootComment v setText header =
     (case getComment v of
        NoStore \<Rightarrow> (v, throw (TypeError ''Cannot read properties of undefined''))
      | Payload pv \<Rightarrow>
          if plainlyFalsy pv then
            (withoutComment v,
             throw (TypeError (if pv = Undefined then ''Cannot read properties of undefined''
                               else if pv = Null then ''Cannot read properties of null''
                               else ''Cannot create property on a primitive'')))
          else undefined
      | Store comment \<Rightarrow>
          (let r = (case cr comment of None \<Rightarrow> (Some [], Some []) | Some p \<Rightarrow> p);
               t = forceComment (orEmpty setText);
               r1 = (if header = 0 then (Some t, snd r) else (fst r, Some t))
           in (withComment (comment\<lparr>cr := Some r1\<rparr>) v, Inr t)))"

text \<open>
  \<open>mergeComments(comments, value)\<close>: the value as the call leaves it, and the error when
  it throws.
\<close>
definition mergeComments :: "cdoc option \<Rightarrow> 'n hvalue \<Rightarrow> 'n hvalue \<times> error option" where
  "mergeComments cmts v =
     (case cmts of
        None \<Rightarrow> (v, None)
      | Some doc \<Rightarrow>
          (case merge (Some doc) v [] [] of
             (v1, Inl e) \<Rightarrow> (v1, Some e)
           | (v1, Inr dropped) \<Rightarrow>
               if dropped = [] then (v1, None)
               else
                 (case rootComment v1 None 1 of
                    (v2, Inl e) \<Rightarrow> (v2, Some e)
                  | (v2, Inr text0) \<Rightarrow>
                      (case orphanLines dropped of
                         Inl e \<Rightarrow> (v2, Some e)
                       | Inr ls \<Rightarrow>
                           (case rootComment v2
                                   (Some (text0 @ [CHR 0x0A] @ ''# Orphaned comments:''
                                          @ [CHR 0x0A] @ ls)) 1 of
                              (v3, Inl e) \<Rightarrow> (v3, Some e)
                            | (v3, Inr t) \<Rightarrow> (v3, None))))))"

section \<open>Whole numbers as an instance of the number interface\<close>

text \<open>
  The worked examples below run the model on whole numbers: \<open>String(n)\<close> is the decimal
  numeral of \<open>n\<close>, and \<open>+s\<close> reads a decimal numeral with an optional minus sign (the empty
  string is 0, as in the language). A string with a fraction or an exponent denotes no
  whole number and is outside this instance, where it reads as \<open>NaN\<close>; no example uses
  one. The longest string is that of V8 on a 64-bit machine, \<open>2^29 - 24\<close> characters.
\<close>

definition intToString :: "int \<Rightarrow> string" where
  "intToString i = (if i < 0 then CHR ''-'' # natToString (nat (- i)) else natToString (nat i))"

definition digitsToNat :: "string \<Rightarrow> nat" where
  "digitsToNat ds = foldl (\<lambda>acc c. 10 * acc + (code c - 48)) 0 ds"

definition stringToInt :: "string \<Rightarrow> int jsnum" where
  "stringToInt s0 =
     (let s = trim s0
      in if s = [] then Finite 0
         else if hd s = CHR ''-'' \<and> tl s \<noteq> [] \<and> (\<forall>c \<in> set (tl s). isDigit c) then
           Finite (- int (digitsToNat (tl s)))
         else if \<forall>c \<in> set s. isDigit c then Finite (int (digitsToNat s))
         else NaN)"

definition int_env :: "int jsenv" where
  "int_env = \<lparr>toNumber = stringToInt, numberToString = intToString, getEOL = [CHR 0x0A],
               maxStringLength = 536870888\<rparr>"

section \<open>Notions used to state the properties\<close>

text \<open>The DSF hooks of a set of stringify options (none when the option is absent).\<close>
definition dsfHooks :: "'n stringify_options \<Rightarrow> 'n dsf list" where
  "dsfHooks opt = (case dsf opt of None \<Rightarrow> [] | Some xs \<Rightarrow> xs)"

text \<open>A text that opens with the first and closes with the second token of a pair.\<close>
definition bracedBy :: "string \<times> string \<Rightarrow> string \<Rightarrow> bool" where
  "bracedBy tk s = (length (fst tk) + length (snd tk) \<le> length s
     \<and> take (length (fst tk)) s = fst tk
     \<and> drop (length s - length (snd tk)) s = snd tk)"

text \<open>
  A DSF for objects that stand for points, written \<open>x;y\<close>: an example of a stringify hook
  that answers for an object.
\<close>
definition pointDsf :: "int dsf" where
  "pointDsf =
     \<lparr>dsf_name = ''point'',
      dsf_parse = (\<lambda>s. Inr Undefined),
      dsf_stringify = (\<lambda>v. case v of Obj _ _ \<Rightarrow> Inr (Some ''1;2'') | _ \<Rightarrow> Inr None)\<rparr>"

text \<open>
  A stringify hook that can be loaded and never makes \<open>stringify\<close> fail: it has a name,
  it does not throw, and what it returns passes the validation of \<open>loadDsf\<close>.
\<close>
definition hookAnswersSafely :: "'n dsf \<Rightarrow> bool" where
  "hookAnswersSafely x =
     (dsf_name x \<noteq> [] \<and>
      (\<forall>v. case dsf_stringify x v of
              Inl m \<Rightarrow> False
            | Inr None \<Rightarrow> True
            | Inr (Some res) \<Rightarrow>
                res \<noteq> [] \<and> hd res \<noteq> CHR 0x22 \<and> (\<forall>c \<in> set res. \<not> isInvalidDsfChar c)))"

text \<open>
  An annotation store the stringifier can read: the store of an array has its list \<open>a\<close>,
  the first component of a pair \<open>e\<close> is a string, and the key order of the store of an
  object does not name the property \<open>__COMMENTS__\<close> that holds the store.
\<close>
definition storeReadable :: "bool \<Rightarrow> comments option \<Rightarrow> bool" where
  "storeReadable isArray cm =
     (case cm of
        None \<Rightarrow> True
      | Some w \<Rightarrow>
          (\<not> isArray \<or> ca w \<noteq> None)
          \<and> (case ce w of None \<Rightarrow> True | Some (e0, e1) \<Rightarrow> e0 \<noteq> None)
          \<and> (isArray \<or> (case co w of None \<Rightarrow> True | Some order \<Rightarrow> commentsKey \<notin> set order)))"

text \<open>
  A value whose annotation stores can be read, at every depth: each store is readable, and
  no object has a payload property named \<open>__COMMENTS__\<close>, which the code would read in
  the place of the store.
\<close>
fun readable :: "'n hvalue \<Rightarrow> bool" where
  "readable (Arr cm vs) = (storeReadable True cm \<and> (\<forall>v \<in> set vs. readable v))"
| "readable (Obj cm kvs) =
     (storeReadable False cm \<and> commentsKey \<notin> set (map fst kvs)
      \<and> (\<forall>v \<in> set (map snd kvs). readable v))"
| "readable _ = True"

text \<open>A value of the option \<open>space\<close> that \<open>' '.repeat\<close> accepts.\<close>
definition countAllowed :: "'n jsenv \<Rightarrow> space_opt \<Rightarrow> bool" where
  "countAllowed env sp =
     (case sp of
        SpaceNum n \<Rightarrow> 0 \<le> n \<and> n \<le> maxStringLength env
      | SpaceInfinity \<Rightarrow> False
      | SpaceNegInfinity \<Rightarrow> False
      | _ \<Rightarrow> True)"

text \<open>A value without a payload property named \<open>__COMMENTS__\<close>, at any depth.\<close>
fun keyFree :: "'n hvalue \<Rightarrow> bool" where
  "keyFree (Arr cm vs) = (\<forall>v \<in> set vs. keyFree v)"
| "keyFree (Obj cm kvs) =
     (commentsKey \<notin> set (map fst kvs) \<and> (\<forall>v \<in> set (map snd kvs). keyFree v))"
| "keyFree _ = True"

text \<open>A comment document that names the key \<open>__COMMENTS__\<close> in no key order.\<close>
fun docKeyFree :: "cdoc \<Rightarrow> bool" and slotKeyFree :: "slot \<Rightarrow> bool" where
  "docKeyFree (CDoc a s ord e r b x) =
     ((case ord of None \<Rightarrow> True | Some keys \<Rightarrow> commentsKey \<notin> set keys)
      \<and> (case a of None \<Rightarrow> True | Some sl \<Rightarrow> slotKeyFree sl)
      \<and> (case s of None \<Rightarrow> True | Some m \<Rightarrow> \<forall>p \<in> set m. docKeyFree (snd p))
      \<and> (case x of None \<Rightarrow> True | Some d \<Rightarrow> docKeyFree d))"
| "slotKeyFree (AText t) = True"
| "slotKeyFree (AMap m) = (\<forall>p \<in> set m. docKeyFree (snd p))"

text \<open>A DSF whose stringify hook throws.\<close>
definition failingDsf :: "int dsf" where
  "failingDsf =
     \<lparr>dsf_name = ''bad'', dsf_parse = (\<lambda>s. Inr Undefined), dsf_stringify = (\<lambda>v. Inl ''boom'')\<rparr>"

text \<open>The payload of a value: its keys, elements and scalars, without any annotation
  store.\<close>
fun payload :: "'n hvalue \<Rightarrow> 'n hvalue" where
  "payload (Arr cm vs) = Arr None (map payload vs)"
| "payload (Obj cm kvs) = Obj None (map (\<lambda>(k, v). (k, payload v)) kvs)"
| "payload v = v"

text \<open>
  The scan of a quoteless token, entered at a cursor \<open>c\<close> with the text \<open>v\<close> read so far:
  after \<open>n\<close> more characters the text read is \<open>scanned text c v n\<close> and the cursor is
  \<open>cursorAfter text c n\<close>, on the character of index \<open>at c + n\<close>.
\<close>
definition scanned :: "string \<Rightarrow> cursor \<Rightarrow> string \<Rightarrow> nat \<Rightarrow> string" where
  "scanned text c v n = v @ substr text (at c) n"

definition cursorAfter :: "string \<Rightarrow> cursor \<Rightarrow> nat \<Rightarrow> cursor" where
  "cursorAfter text c n = \<lparr>at = at c + n + 1, ch = charAt text (at c + n)\<rparr>"

text \<open>
  A delimiter: the end of the input, a line break, \<open>,\<close>, \<open>}\<close>, \<open>]\<close> or the opening of a
  comment.
\<close>
definition delimiterAt :: "string \<Rightarrow> cursor \<Rightarrow> nat \<Rightarrow> bool" where
  "delimiterAt text c n =
     (isEol (cursorAfter text c n) \<or> atStop text (cursorAfter text c n))"

text \<open>
  Where the scan ends: at the end of the line or of the input, and at another delimiter
  only when the text read so far is a keyword or a number.
\<close>
definition stopsAt :: "'n jsenv \<Rightarrow> string \<Rightarrow> cursor \<Rightarrow> string \<Rightarrow> nat \<Rightarrow> bool" where
  "stopsAt env text c v n =
     (isEol (cursorAfter text c n) \<or>
      (atStop text (cursorAfter text c n) \<and> tfnnsToken env (scanned text c v n) \<noteq> None))"

text \<open>
  The resolution of a token: a keyword or a number if it is one, else the first defined
  answer of the DSF parse hooks on the trimmed text, else the trimmed text as a string.
\<close>
definition resolve :: "'n jsenv \<Rightarrow> 'n dsf list \<Rightarrow> string \<Rightarrow> error + 'n hvalue" where
  "resolve env hooks s =
     (case tfnnsToken env s of
        Some tok \<Rightarrow> Inr tok
      | None \<Rightarrow>
          (case runDsf_parse hooks (trim s) of
             Inl e \<Rightarrow> Inl e
           | Inr d \<Rightarrow> Inr (if d \<noteq> Undefined then d else Str (trim s))))"

definition endingAt :: "string \<Rightarrow> cursor \<Rightarrow> nat \<Rightarrow> error + 'n hvalue \<Rightarrow> error + ('n hvalue \<times> cursor)" where
  "endingAt text c n r = (case r of Inl e \<Rightarrow> Inl e | Inr x \<Rightarrow> Inr (x, cursorAfter text c n))"

section \<open>Properties of the stringifier\<close>

text \<open>
  Claim C9. For every value and every set of options, \<open>stringify\<close> with \<open>quotes\<close> set to
  \<open>'always'\<close> gives exactly what it gives with \<open>quotes\<close> set to \<open>'strings'\<close>: the same text,
  or the same error.
\<close>

theorem quotes_always_is_strings:
  "stringify env v (opt\<lparr>quotes := Some QAlways\<rparr>) = stringify env v (opt\<lparr>quotes := Some QStrings\<rparr>)"
  by (simp add: stringify_def)

subsection \<open>The settings that the options determine\<close>

lemma settings_of_fields:
  assumes "settings_of env opt = Inr cfg"
  shows "s_token cfg = (if colors opt = Some True then ColorToken else plainToken)"
    and "s_keepComments cfg = (keepWhitespaceAndComments opt = Some True)"
    and "s_runDsf cfg = dsfHooks opt"
proof -
  from assms obtain hooks where h: "loadDsf (dsf opt) = Inr hooks" and "s_runDsf cfg = hooks"
    and t: "s_token cfg = (if colors opt = Some True then ColorToken else plainToken)"
    and k: "s_keepComments cfg = (case keepWhitespaceAndComments opt of Some k \<Rightarrow> k | None \<Rightarrow> False)"
    by (auto simp: settings_of_def Let_def split: sum.splits)
  moreover from h have "hooks = dsfHooks opt"
    by (auto simp: loadDsf_def dsfHooks_def throw_def split: option.splits if_splits)
  ultimately show "s_token cfg = (if colors opt = Some True then ColorToken else plainToken)"
    and "s_keepComments cfg = (keepWhitespaceAndComments opt = Some True)"
    and "s_runDsf cfg = dsfHooks opt"
    by (auto split: option.splits)
qed

subsection \<open>Totality, and the values written as null\<close>

lemma storeOf_Arr: "storeOf (Arr cm vs) = cm"
  by (simp add: storeOf_def split: option.splits)

lemma storeOf_Obj:
  "commentsKey \<notin> set (map fst kvs) \<Longrightarrow> storeOf (Obj cm kvs) = cm"
  by (cases cm) (auto simp: storeOf_def map_of_eq_None_iff[THEN iffD2] image_iff
                      split: option.splits)



lemma runDsf_stringify_total:
  "\<forall>x \<in> set hooks. hookAnswersSafely x \<Longrightarrow> \<exists>r. runDsf_stringify hooks v = Inr r"
proof (induction hooks)
  case Nil
  then show ?case by simp
next
  case (Cons x xs)
  then have s: "hookAnswersSafely x" and ih: "\<exists>r. runDsf_stringify xs v = Inr r" by simp_all
  from s have "case dsf_stringify x v of
              Inl m \<Rightarrow> False
            | Inr None \<Rightarrow> True
            | Inr (Some res) \<Rightarrow>
                res \<noteq> [] \<and> hd res \<noteq> CHR 0x22 \<and> (\<forall>c \<in> set res. \<not> isInvalidDsfChar c)"
    unfolding hookAnswersSafely_def by blast
  then have "dsf_stringify_checked x v = Inr None \<or> (\<exists>res. dsf_stringify_checked x v = Inr (Some res))"
    by (auto simp: dsf_stringify_checked_def split: sum.splits option.splits)
  with ih show ?case by auto
qed

lemma dsfFirst_total:
  "\<forall>x \<in> set (s_runDsf cfg). hookAnswersSafely x \<Longrightarrow> \<exists>y. k = Inr y \<Longrightarrow> \<exists>out. dsfFirst cfg v k = Inr out"
  using runDsf_stringify_total[of "s_runDsf cfg" v]
  by (auto simp: dsfFirst_def split: sum.splits option.splits)

lemma memberLines_total:
  "\<exists>x. f hc = Inr x \<Longrightarrow> hc = (comment \<noteq> None \<and> (commentOnThisLine (case comment of None \<Rightarrow> None | Some c \<Rightarrow> prop_a c) \<or> truthy (case comment of None \<Rightarrow> None | Some c \<Rightarrow> prop_b c)))
   \<Longrightarrow> \<exists>l. memberLines cfg indent2 comment key com f = Inr l"
  by (auto simp: memberLines_def Let_def split: sum.splits)

lemma allResults_total:
  "\<forall>r \<in> set rs. \<exists>x. r = Inr x \<Longrightarrow> \<exists>xs. allResults rs = Inr xs"
  by (induction rs) auto

lemma condensedArray_total:
  "\<forall>r \<in> set rs. \<exists>x. r = Inr x \<Longrightarrow> \<exists>c. condensedArray cfg rs = Inr c"
  using allResults_total[of rs]
  by (auto simp: condensedArray_def Let_def)

lemma condensedObject_total:
  "\<exists>x. r = Inr x \<Longrightarrow> \<exists>c. condensedObject env cfg key r = Inr c"
  by (auto simp: condensedObject_def Let_def)

lemma arrayComment_total:
  "storeReadable True wsc \<Longrightarrow> \<exists>c. arrayComment wsc i = Inr c"
  by (auto simp: arrayComment_def storeReadable_def split: option.splits)

lemma endLines_total:
  "storeReadable isArr wsc \<Longrightarrow> \<exists>c. endLines cfg wsc indent2 = Inr c"
  by (auto simp: endLines_def storeReadable_def split: option.splits prod.splits)

lemma arrayLines_total:
  assumes "storeReadable True wsc" and "\<forall>f \<in> set fs. \<forall>hc. \<exists>x. f hc = Inr x"
  shows "\<exists>l. arrayLines cfg wsc indent2 n i fs = Inr l"
  using assms(2)
proof (induction fs arbitrary: i)
  case Nil
  then show ?case by simp
next
  case (Cons f fs)
  obtain c where c: "arrayComment wsc i = Inr c" using arrayComment_total[OF assms(1)] by blast
  from Cons.prems have "\<forall>hc. \<exists>x. f hc = Inr x" by simp
  then have ml: "\<And>com. \<exists>l. memberLines cfg indent2 c [] com f = Inr l"
    using memberLines_total[of f _ c cfg indent2] by blast
  obtain l1 where l1: "memberLines cfg indent2 c [] (fst (t_com (s_token cfg))) f = Inr l1"
    using ml by blast
  obtain l2 where l2: "memberLines cfg indent2 c [] [] f = Inr l2"
    using ml by blast
  from Cons obtain r where r: "arrayLines cfg wsc indent2 n (Suc i) fs = Inr r" by fastforce
  show ?case by (simp add: c l1 l2 r)
qed

lemma objectLines_total:
  assumes "\<forall>p \<in> set children. \<forall>hc. \<exists>x. snd p hc = Inr x"
  shows "wsc \<noteq> None \<longrightarrow> commentsKey \<notin> set keys
         \<Longrightarrow> \<exists>l. objectLines env cfg wsc indent2 sep children keys = Inr l"
proof (induction keys)
  case Nil
  then show ?case by simp
next
  case (Cons key keys)
  then obtain r where r: "objectLines env cfg wsc indent2 sep children keys = Inr r" by auto
  have nk: "\<not> (key = commentsKey \<and> wsc \<noteq> None)" using Cons.prems by auto
  show ?case
  proof (cases "if key = ''__COMMENTS'' then None else map_of children key")
    case None
    then show ?thesis using r nk by auto
  next
    case (Some f)
    then have "(key, f) \<in> set children" by (auto split: if_splits dest: map_of_SomeD)
    with assms have "\<forall>hc. \<exists>x. f hc = Inr x" by fastforce
    then obtain l where "memberLines cfg indent2
                  (case wsc of None \<Rightarrow> None
                   | Some w \<Rightarrow> (case cc w of None \<Rightarrow> None | Some c \<Rightarrow> map_of c key))
                  (quoteKey env cfg key @ fst (t_col (s_token cfg)) @ '' '')
                  (if sep \<noteq> [] then fst (t_com (s_token cfg)) else []) f = Inr l"
      using memberLines_total[of f] by blast
    then show ?thesis using r Some nk by auto
  qed
qed

lemma arrayText_total:
  assumes "storeReadable True wsc" and "\<forall>f \<in> set fs. \<forall>hc. \<exists>x. f hc = Inr x"
  shows "\<exists>t. arrayText cfg wsc level fs = Inr t"
  using arrayLines_total[OF assms, of cfg "repeat (s_indent cfg) (level + 1)" "length fs" 0]
        endLines_total[OF assms(1), of cfg "repeat (s_indent cfg) (level + 1)"]
  by (auto simp: arrayText_def Let_def)

lemma objectText_total:
  assumes "storeReadable False wsc" and "\<forall>p \<in> set children. \<forall>hc. \<exists>x. snd p hc = Inr x"
    and "wsc \<noteq> None \<longrightarrow> commentsKey \<notin> set keys"
  shows "\<exists>t. objectText env cfg wsc sep level showBraces keys children = Inr t"
proof -
  obtain e where e: "endLines cfg wsc (repeat (s_indent cfg) (level + 1)) = Inr e"
    using endLines_total[OF assms(1)] by blast
  let ?keys2 = "case (case wsc of None \<Rightarrow> None | Some w \<Rightarrow> co w) of
                  Some order \<Rightarrow> order
                | None \<Rightarrow> if s_sortProps cfg then sort keys else keys"
  have k: "wsc \<noteq> None \<longrightarrow> commentsKey \<notin> set ?keys2"
    using assms(1,3) by (auto simp: storeReadable_def split: option.splits)
  obtain b where b: "objectLines env cfg wsc (repeat (s_indent cfg) (level + 1)) sep children ?keys2
      = Inr b"
    using objectLines_total[OF assms(2) k] by blast
  show ?thesis
    using b e by (simp add: objectText_def Let_def)
qed


lemma visit_total:
  assumes "\<forall>x \<in> set (s_runDsf cfg). hookAnswersSafely x"
  shows "(s_keepComments cfg \<longrightarrow> readable v) \<Longrightarrow> \<exists>out. visit env cfg v sep level root hc = Inr out"
proof (induction v arbitrary: sep level root hc)
  case (Arr cm vs)
  let ?wsc = "if s_keepComments cfg then storeOf (Arr cm vs) else None"
  let ?children = "map (\<lambda>x. \<lambda>lvl hc. visit env cfg x sep lvl False hc) vs"
  have rd: "storeReadable True ?wsc"
    using Arr.prems by (auto simp: storeReadable_def storeOf_Arr)
  have ch: "\<forall>x \<in> set vs. \<forall>lvl hc. \<exists>y. visit env cfg x sep lvl False hc = Inr y"
    using Arr.IH Arr.prems by auto
  have c1: "\<exists>c. condensedArray cfg (map (\<lambda>f. f 0 False) ?children) = Inr c"
    by (rule condensedArray_total) (use ch in auto)
  have c2: "\<exists>t. arrayText cfg ?wsc level (map (\<lambda>f. f (level + 1)) ?children) = Inr t"
    by (rule arrayText_total[OF rd]) (use ch in auto)
  have "\<exists>y. (if vs = [] then Inr ''[]''
        else condensedOr
                (if 0 < s_condense cfg \<and> ?wsc = None \<and> \<not> hc then
                   condensedArray cfg (map (\<lambda>f. f 0 False) ?children)
                 else Inr None)
                (arrayText cfg ?wsc level (map (\<lambda>f. f (level + 1)) ?children))) = Inr y"
    using c1 c2 by (auto simp: condensedOr_def split: sum.splits option.splits)
  then show ?case
    unfolding visit.simps Let_def by (rule dsfFirst_total[OF assms])
next
  case (Obj cm kvs)
  let ?wsc = "if s_keepComments cfg then storeOf (Obj cm kvs) else None"
  let ?children = "map (\<lambda>(k, x). (k, \<lambda>lvl hc. visit env cfg x sep lvl False hc)) kvs"
  have rd: "storeReadable False ?wsc"
    using Obj.prems by (auto simp: storeReadable_def storeOf_Obj)
  have nk: "?wsc \<noteq> None \<longrightarrow> commentsKey \<notin> set (map fst kvs)"
    using Obj.prems by auto
  have ch: "\<forall>p \<in> set kvs. \<forall>lvl hc. \<exists>y. visit env cfg (snd p) sep lvl False hc = Inr y"
    using Obj.IH Obj.prems by (auto simp: snds.simps) 
  have c1: "\<exists>c. condensedObject env cfg (hd (map fst kvs)) (snd (hd ?children) 0 False) = Inr c"
    if "kvs \<noteq> []"
    by (rule condensedObject_total) (use ch that in \<open>cases kvs; auto split: prod.splits\<close>)
  have c2: "\<exists>t. objectText env cfg ?wsc sep level root (map fst kvs)
                   (map (\<lambda>(k, f). (k, f (level + 1))) ?children) = Inr t"
    by (rule objectText_total[OF rd _ nk]) (use ch in \<open>auto split: prod.splits\<close>)
  have "\<exists>y. (if kvs = [] then Inr ''{}''
        else condensedOr
                (if 0 < s_condense cfg \<and> ?wsc = None \<and> \<not> hc \<and> length kvs = 1 then
                   condensedObject env cfg (hd (map fst kvs)) (snd (hd ?children) 0 False)
                 else Inr None)
                (objectText env cfg ?wsc sep level root (map fst kvs)
                   (map (\<lambda>(k, f). (k, f (level + 1))) ?children))) = Inr y"
  proof (cases "kvs = []")
    case True
    then show ?thesis by simp
  next
    case False
    from c1[OF False] c2 False show ?thesis
      by (auto simp: condensedOr_def split: sum.splits option.splits)
  qed
  then show ?case
    unfolding visit.simps Let_def by (rule dsfFirst_total[OF assms])
next
  case (Num n)
  show ?case using dsfFirst_total[OF assms] by (cases n) simp_all
qed (use dsfFirst_total[OF assms] in simp_all)


lemma settings_of_total:
  assumes "\<forall>x \<in> set (dsfHooks opt). hookAnswersSafely x"
    and "\<forall>sp. space opt = Some sp \<longrightarrow> countAllowed env sp"
  shows "\<exists>cfg. settings_of env opt = Inr cfg"
proof -
  have 1: "\<exists>ind. (case space opt of
              Some sp \<Rightarrow> spaces env sp
            | None \<Rightarrow> Inr ''  '') = Inr ind"
    using assms(2)
    by (auto simp: spaces_def countAllowed_def split: option.splits space_opt.splits)
  have 2: "\<exists>hooks. loadDsf (dsf opt) = Inr hooks"
    using assms(1)
    by (auto simp: loadDsf_def dsfHooks_def hookAnswersSafely_def split: option.splits)
  from 1 2 show ?thesis
    by (auto simp: settings_of_def Let_def)
qed

lemma stringify_with_total:
  assumes "\<forall>x \<in> set (dsfHooks opt). hookAnswersSafely x"
    and "\<forall>sp. space opt = Some sp \<longrightarrow> countAllowed env sp"
    and "keepWhitespaceAndComments opt = Some True \<longrightarrow> readable v"
  shows "\<exists>out. stringify_with env v opt = Inr out"
proof -
  obtain cfg where cfg: "settings_of env opt = Inr cfg"
    using settings_of_total[OF assms(1,2)] by blast
  have h: "\<forall>x \<in> set (s_runDsf cfg). hookAnswersSafely x"
    using assms(1) settings_of_fields(3)[OF cfg] by simp
  have r: "s_keepComments cfg \<longrightarrow> readable v"
    using assms(3) settings_of_fields(2)[OF cfg] by simp
  obtain body where "visit env cfg v (s_separator cfg) 0 True False = Inr body"
    using visit_total[OF h r] by blast
  then show ?thesis by (simp add: stringify_with_def cfg)
qed

lemma null_token:
  assumes "u \<in> {Undefined, Function, Num NaN, Num PosInfinity, Num NegInfinity}"
    and "runDsf_stringify (s_runDsf cfg) u = Inr None"
  shows "visit env cfg u sep level root hc = Inr (wrap (t_lit (s_token cfg)) ''null'')"
  using assms by (auto simp: dsfFirst_def)


lemma mathDsf_safe: "hookAnswersSafely (mathDsf f)"
  by (auto simp: hookAnswersSafely_def mathDsf_def isInvalidDsfChar_def
           split: hvalue.splits jsnum.splits)



subsection \<open>The braces of the root object\<close>

lemma bracedByI: "s = fst tk @ mid @ snd tk \<Longrightarrow> bracedBy tk s"
  by (simp add: bracedBy_def)

lemma condensedObject_braced:
  assumes "condensedObject env cfg key r = Inr (Some res2)"
  shows "bracedBy (''{'', ''}'') res2"
proof -
  from assms obtain vs where
    "res2 = ''{'' @ quoteKey env cfg key @ fst (t_col (s_token cfg)) @ '' '' @ vs @ ''}''"
    by (auto simp: condensedObject_def Let_def split: sum.splits if_splits)
  then have "res2 = fst (''{'', ''}'')
      @ (quoteKey env cfg key @ fst (t_col (s_token cfg)) @ '' '' @ vs) @ snd (''{'', ''}'')"
    by simp
  then show ?thesis by (rule bracedByI)
qed

lemma objectText_braced:
  assumes "objectText env cfg wsc sep level True keys children = Inr body"
  shows "bracedBy (t_obj (s_token cfg)) body"
proof -
  from assms obtain b e where
    "body = (if s_bracesSameLine cfg then fst (t_obj (s_token cfg)) @ '' ''
             else fst (t_obj (s_token cfg)) @ s_eol cfg)
      @ b @ e @ repeat (s_indent cfg) level @ snd (t_obj (s_token cfg))"
    by (auto simp: objectText_def Let_def split: sum.splits)
  then have "body = fst (t_obj (s_token cfg))
      @ ((if s_bracesSameLine cfg then '' '' else s_eol cfg) @ b @ e @ repeat (s_indent cfg) level)
      @ snd (t_obj (s_token cfg))"
    by simp
  then show ?thesis by (rule bracedByI)
qed

lemma runDsf_stringify_none:
  "(\<forall>x \<in> set hooks. dsf_stringify x v = Inr None) \<Longrightarrow> runDsf_stringify hooks v = Inr None"
  by (induction hooks) (auto simp: dsf_stringify_checked_def)

lemma visit_root_object:
  assumes "kvs \<noteq> []"
    and "runDsf_stringify (s_runDsf cfg) (Obj cm kvs) = Inr None"
    and "visit env cfg (Obj cm kvs) sep level True hc = Inr body"
  shows "bracedBy (t_obj (s_token cfg)) body \<or> bracedBy (''{'', ''}'') body"
  using assms objectText_braced condensedObject_braced
  by (simp add: dsfFirst_def condensedOr_def Let_def split: sum.splits option.splits if_splits)
     blast+

lemma settings_of_emitRootBraces:
  "settings_of env (opt\<lparr>emitRootBraces := b\<rparr>) = settings_of env opt"
  by (simp add: settings_of_def Let_def cong: sum.case_cong)

lemma settings_of_emitRootBraces_quotes:
  "settings_of env (opt\<lparr>emitRootBraces := b, quotes := q\<rparr>) = settings_of env (opt\<lparr>quotes := q\<rparr>)"
  by (simp add: settings_of_def Let_def cong: sum.case_cong)

lemma stringify_with_root_object:
  assumes "kvs \<noteq> []"
    and "\<forall>x \<in> set (dsfHooks opt). dsf_stringify x (Obj cm kvs) = Inr None"
    and "stringify_with env (Obj cm kvs) opt = Inr out"
  shows "\<exists>body. out = rootHeader (keepWhitespaceAndComments opt = Some True) (Obj cm kvs) @ body
                     @ rootFooter (keepWhitespaceAndComments opt = Some True) (Obj cm kvs)
          \<and> (bracedBy (t_obj (if colors opt = Some True then ColorToken else plainToken)) body
               \<or> bracedBy (''{'', ''}'') body)"
proof -
  from assms(3) obtain cfg body where cfg: "settings_of env opt = Inr cfg"
    and body: "visit env cfg (Obj cm kvs) (s_separator cfg) 0 True False = Inr body"
    and out: "out = rootHeader (s_keepComments cfg) (Obj cm kvs) @ body
                    @ rootFooter (s_keepComments cfg) (Obj cm kvs)"
    by (auto simp: stringify_with_def split: sum.splits)
  have "runDsf_stringify (s_runDsf cfg) (Obj cm kvs) = Inr None"
    using assms(2) settings_of_fields(3)[OF cfg] by (simp add: runDsf_stringify_none)
  from visit_root_object[OF assms(1) this body] out settings_of_fields(1,2)[OF cfg]
  show ?thesis by auto
qed

lemma dsfHooks_quotes: "dsfHooks (opt\<lparr>quotes := q\<rparr>) = dsfHooks opt"
  by (simp add: dsfHooks_def)

lemma stringify_root_object:
  assumes "kvs \<noteq> []"
    and "\<forall>x \<in> set (dsfHooks opt). dsf_stringify x (Obj cm kvs) = Inr None"
    and "stringify env (Obj cm kvs) opt = Inr out"
  shows "\<exists>body. out = rootHeader (keepWhitespaceAndComments opt = Some True) (Obj cm kvs) @ body
                     @ rootFooter (keepWhitespaceAndComments opt = Some True) (Obj cm kvs)
          \<and> (bracedBy (t_obj (if colors opt = Some True then ColorToken else plainToken)) body
               \<or> bracedBy (''{'', ''}'') body)"
proof (cases "quotes opt = Some QAlways")
  case True
  with assms(3) have s: "stringify_with env (Obj cm kvs) (opt\<lparr>quotes := Some QStrings\<rparr>) = Inr out"
    by (simp add: stringify_def)
  have h: "\<forall>x \<in> set (dsfHooks (opt\<lparr>quotes := Some QStrings\<rparr>)).
             dsf_stringify x (Obj cm kvs) = Inr None"
    using assms(2) by (simp only: dsfHooks_quotes)
  show ?thesis
    using stringify_with_root_object[OF assms(1) h s] by simp
next
  case False
  with assms(3) have s: "stringify_with env (Obj cm kvs) opt = Inr out"
    by (simp add: stringify_def)
  show ?thesis
    by (rule stringify_with_root_object[OF assms(1) assms(2) s])
qed

text \<open>
  Claim C10, as the code has it. The option \<open>emitRootBraces\<close> has no effect on the
  result of \<open>stringify\<close>, for any value and any options. For a root object with at least
  one property that no DSF stringify hook answers for, whenever \<open>stringify\<close> returns a
  text, that text is the root header comment, then the object between its braces, then
  the root footer comment (both comments are empty unless comments are kept): the
  braces are the tokens \<open>obj\<close> of the plain or the coloured token table, or the plain
  characters of the condensed form.
\<close>

theorem root_braces_ignore_emitRootBraces:
  "stringify env v (opt\<lparr>emitRootBraces := b\<rparr>) = stringify env v opt
   \<and> (kvs \<noteq> [] \<and> (\<forall>x \<in> set (dsfHooks opt). dsf_stringify x (Obj cm kvs) = Inr None)
        \<and> stringify env (Obj cm kvs) opt = Inr out \<longrightarrow>
      (\<exists>body. out = rootHeader (keepWhitespaceAndComments opt = Some True) (Obj cm kvs) @ body
                     @ rootFooter (keepWhitespaceAndComments opt = Some True) (Obj cm kvs)
          \<and> (bracedBy (t_obj (if colors opt = Some True then ColorToken else plainToken)) body
               \<or> bracedBy (''{'', ''}'') body)))"
proof (intro conjI impI)
  show "stringify env v (opt\<lparr>emitRootBraces := b\<rparr>) = stringify env v opt"
    by (simp add: stringify_def stringify_with_def settings_of_emitRootBraces
          settings_of_emitRootBraces_quotes)
next
  assume a: "kvs \<noteq> [] \<and> (\<forall>x \<in> set (dsfHooks opt). dsf_stringify x (Obj cm kvs) = Inr None)
        \<and> stringify env (Obj cm kvs) opt = Inr out"
  note a1 = conjunct1[OF a] and a2 = conjunct1[OF conjunct2[OF a]]
    and a3 = conjunct2[OF conjunct2[OF a]]
  show "\<exists>body. out = rootHeader (keepWhitespaceAndComments opt = Some True) (Obj cm kvs) @ body
                     @ rootFooter (keepWhitespaceAndComments opt = Some True) (Obj cm kvs)
          \<and> (bracedBy (t_obj (if colors opt = Some True then ColorToken else plainToken)) body
               \<or> bracedBy (''{'', ''}'') body)"
    by (rule stringify_root_object[OF a1 a2 a3])
qed

theorem root_braces_witness:
  "stringify int_env (Obj None [(''x'', Num (Finite 1))])
      (default_stringify_options\<lparr>emitRootBraces := Some False\<rparr>) = Inr ''{\<newline>  x: 1\<newline>}''
   \<and> bracedBy (''{'', ''}'') ''{\<newline>  x: 1\<newline>}''"
proof -
  have e: "stringify int_env (Obj None [(''x'', Num (Finite 1))]) default_stringify_options
      = Inr ''{\<newline>  x: 1\<newline>}''"
    by code_simp
  have h: "\<forall>x \<in> set (dsfHooks (default_stringify_options :: int stringify_options)).
      dsf_stringify x (Obj None [(''x'', Num (Finite 1))]) = Inr None"
    by (simp add: dsfHooks_def default_stringify_options_def)
  have k: "keepWhitespaceAndComments (default_stringify_options :: int stringify_options) \<noteq> Some True"
    and c: "colors (default_stringify_options :: int stringify_options) \<noteq> Some True"
    by (simp_all add: default_stringify_options_def)
  from root_braces_ignore_emitRootBraces
    [where env = int_env and v = "Obj None [(''x'', Num (Finite 1))]"
       and opt = default_stringify_options and b = "Some False"
       and kvs = "[(''x'', Num (Finite 1))]" and cm = None
       and out = "''{\<newline>  x: 1\<newline>}''"] e h k c
  show ?thesis
    by (simp add: rootHeader_def rootFooter_def plainToken_def)
qed

text \<open>
  The claim as it is written fails for a root object that a DSF stringify hook answers
  for: the text of the hook is the whole output, and the validation of hook results
  forbids braces in it.
\<close>

theorem root_object_without_braces:
  "stringify int_env (Obj None [(''x'', Num (Finite 1)), (''y'', Num (Finite 2))])
     (default_stringify_options\<lparr>dsf := Some [pointDsf]\<rparr>) = Inr ''1;2''
   \<and> \<not> bracedBy (''{'', ''}'') ''1;2''"
  by code_simp

section \<open>Properties of the comment merger\<close>

subsection \<open>The merge leaves the payload alone\<close>

lemma payload_update:
  "i < length vs \<Longrightarrow> payload child = payload (vs ! i)
   \<Longrightarrow> map payload (vs[i := child]) = map payload vs"
  by (simp add: map_update list_update_same_conv)

lemma payload_assoc_replace:
  "map_of kvs key = Some v \<Longrightarrow> payload child = payload v
   \<Longrightarrow> map (\<lambda>(k, v). (k, payload v)) (assoc_replace kvs key child)
       = map (\<lambda>(k, v). (k, payload v)) kvs"
  by (induction kvs) (auto split: if_splits)

lemma keyFree_payload: "keyFree (payload v) = keyFree v"
  by (induction v) (auto simp: image_iff)

lemma keyFree_same_payload: "payload a = payload b \<Longrightarrow> keyFree a = keyFree b"
  using keyFree_payload[of a] keyFree_payload[of b] by simp

lemma keyFree_update:
  "\<forall>v \<in> set vs. keyFree v \<Longrightarrow> keyFree child \<Longrightarrow> \<forall>v \<in> set (vs[i := child]). keyFree v"
  using set_update_subset_insert[of vs i child] by auto

lemma assoc_replace_values:
  "set (map snd (assoc_replace kvs key child)) \<subseteq> insert child (set (map snd kvs))"
proof (induction kvs)
  case Nil
  then show ?case by simp
next
  case (Cons p kvs)
  obtain k y where p: "p = (k, y)" by (cases p)
  show ?case
  proof (cases "k = key")
    case True
    then show ?thesis using p by auto
  next
    case False
    then show ?thesis using p Cons by auto
  qed
qed

lemma keyFree_assoc_replace:
  "\<forall>v \<in> set (map snd kvs). keyFree v \<Longrightarrow> keyFree child
   \<Longrightarrow> \<forall>v \<in> set (map snd (assoc_replace kvs key child)). keyFree v"
  using assoc_replace_values[of kvs key child] by blast

lemma keyFree_map_of:
  "\<forall>v \<in> set (map snd kvs). keyFree v \<Longrightarrow> map_of kvs key = Some v \<Longrightarrow> keyFree v"
  by (auto dest!: map_of_SomeD)

lemma hideKey_keyFree: "commentsKey \<notin> set (map fst kvs) \<Longrightarrow> hideKey kvs = kvs"
  by (induction kvs) (auto simp: hideKey_def)

lemma mergeStore_keyFree:
  "commentsKey \<notin> set (map fst kvs)
   \<Longrightarrow> mergeStore (Obj cm kvs) = Some (case cm of None \<Rightarrow> no_comments | Some w \<Rightarrow> w)"
  by (cases cm) (auto simp: mergeStore_def map_of_eq_None_iff[THEN iffD2] image_iff
                      split: option.splits)

lemma docKeyFree_parts:
  assumes "docKeyFree doc"
  shows "case d_x doc of None \<Rightarrow> True | Some d \<Rightarrow> docKeyFree d"
    and "case d_s doc of None \<Rightarrow> True | Some m \<Rightarrow> \<forall>p \<in> set m. docKeyFree (snd p)"
    and "commentsKey \<notin> set (case d_o doc of None \<Rightarrow> [] | Some keys \<Rightarrow> keys)"
    and "\<And>m. d_a doc = Some (AMap m) \<Longrightarrow> \<forall>p \<in> set m. docKeyFree (snd p)"
  using assms by (cases doc; auto split: option.splits)+

lemma docKeyFree_map_of:
  "\<forall>p \<in> set m. docKeyFree (snd p) \<Longrightarrow> map_of m k = Some c \<Longrightarrow> docKeyFree c"
  by (auto dest!: map_of_SomeD)

lemma merge_frame:
  "(case d of None \<Rightarrow> True | Some doc \<Rightarrow> docKeyFree doc) \<Longrightarrow> keyFree (v :: 'n hvalue)
   \<Longrightarrow> payload (fst (merge d v dropped path)) = payload v"
  "\<forall>p \<in> set m. docKeyFree (snd p) \<Longrightarrow> \<forall>v \<in> set (vs :: 'n hvalue list). keyFree v
   \<Longrightarrow> map payload (snd (fst (mergeIndices m keys sc vs dropped path))) = map payload vs"
  "(case s of None \<Rightarrow> True | Some sm \<Rightarrow> \<forall>p \<in> set sm. docKeyFree (snd p))
   \<Longrightarrow> commentsKey \<notin> set ks
   \<Longrightarrow> \<forall>v \<in> set (map snd (kvs :: (string \<times> 'n hvalue) list)). keyFree v
   \<Longrightarrow> map (\<lambda>(k, v). (k, payload v)) (snd (fst (mergeKeys s ks sc kvs dropped path)))
       = map (\<lambda>(k, v). (k, payload v)) kvs"
proof (induction d v dropped path and m keys sc vs dropped path and s ks sc kvs dropped path
       rule: merge_mergeIndices_mergeKeys.induct)
  case (2 doc cm vs dropped path)
  let ?set0 = "case cm of None \<Rightarrow> no_comments | Some w \<Rightarrow> w"
  let ?set1 = "case d_r doc of
                    Some (rb, ra) \<Rightarrow> if path = [] then ?set0\<lparr>cr := Some (rb, ra)\<rparr> else ?set0
                  | None \<Rightarrow> ?set0"
  let ?set2 = "?set1\<lparr>ca := Some (case ca ?set1 of None \<Rightarrow> [] | Some a \<Rightarrow> a)\<rparr>"
  have df: "docKeyFree doc" and kf: "\<forall>v \<in> set vs. keyFree v" using "2.prems" by simp_all
  show ?case
  proof (cases "d_a doc")
    case None
    then show ?thesis by (simp add: Let_def split: option.splits prod.splits)
  next
    case (Some sl)
    show ?thesis
    proof (cases sl)
      case (AText s)
      obtain s3 r where mc: "mergeChars [0..<length s] ?set2 (length vs) dropped path = (s3, r)"
        by (cases "mergeChars [0..<length s] ?set2 (length vs) dropped path") auto
      show ?thesis
        using Some AText mc by (cases r) (simp_all add: Let_def split: option.splits prod.splits)
    next
      case (AMap m)
      obtain s3 vs3 r where mi: "mergeIndices m (sort (remdups (map fst m))) ?set2 vs dropped path
          = ((s3, vs3), r)"
        by (cases "mergeIndices m (sort (remdups (map fst m))) ?set2 vs dropped path") auto
      have mf: "\<forall>p \<in> set m. docKeyFree (snd p)"
        using docKeyFree_parts(4)[OF df] Some AMap by simp
      have "map payload vs3 = map payload vs"
        using "2.IH"[OF refl refl refl refl Some AMap mf kf] mi Some AMap by simp
      then show ?thesis
        using Some AMap mi by (cases r) (simp_all add: Let_def split: option.splits prod.splits)
    qed
  qed
next
  case (3 doc cm kvs dropped path)
  let ?set0 = "case cm of None \<Rightarrow> no_comments | Some w \<Rightarrow> w"
  let ?set1 = "case d_r doc of
                    Some (rb, ra) \<Rightarrow> if path = [] then ?set0\<lparr>cr := Some (rb, ra)\<rparr> else ?set0
                  | None \<Rightarrow> ?set0"
  have df: "docKeyFree doc" and nk: "commentsKey \<notin> set (map fst kvs)"
    and kf: "\<forall>v \<in> set (map snd kvs). keyFree v"
    using "3.prems" by simp_all
  have ms: "mergeStore (Obj cm kvs) = Some ?set0" by (rule mergeStore_keyFree[OF nk])
  have hk: "hideKey kvs = kvs" by (rule hideKey_keyFree[OF nk])
  obtain s3 kvs3 r where mk: "mergeKeys (d_s doc) (case d_o doc of None \<Rightarrow> [] | Some keys \<Rightarrow> keys)
      ?set1 kvs dropped path = ((s3, kvs3), r)"
    by (cases "mergeKeys (d_s doc) (case d_o doc of None \<Rightarrow> [] | Some keys \<Rightarrow> keys)
      ?set1 kvs dropped path") auto
  have "map (\<lambda>(k, v). (k, payload v))
          (snd (fst (mergeKeys (d_s doc) (case d_o doc of None \<Rightarrow> [] | Some keys \<Rightarrow> keys)
                       ?set1 (hideKey kvs) dropped path)))
        = map (\<lambda>(k, v). (k, payload v)) (hideKey kvs)"
    by (rule "3.IH"[OF ms refl docKeyFree_parts(2)[OF df] docKeyFree_parts(3)[OF df]])
       (use kf hk in simp)
  then have "map (\<lambda>(k, v). (k, payload v)) kvs3 = map (\<lambda>(k, v). (k, payload v)) kvs"
    using mk hk by simp
  then show ?case
    using mk ms hk by (cases r) (simp_all add: Let_def split: option.splits prod.splits)
next
  case (11 m i keys setComments vs dropped path)
  note mf = "11.prems"(1) and kf = "11.prems"(2)
  show ?case
  proof (cases "map_of m i")
    case None
    then show ?thesis using "11.IH"(1)[OF None mf kf] by simp
  next
    case (Some c)
    let ?set1 = "setComments\<lparr>ca := Some (array_set
                          (case ca setComments of None \<Rightarrow> [] | Some a \<Rightarrow> a) i
                          (pair_entry (d_b c) (d_a c)))\<rparr>"
    have cf: "docKeyFree c" by (rule docKeyFree_map_of[OF mf Some])
    show ?thesis
    proof (cases "i < length vs")
      case True
      obtain child r where mg: "merge (d_x c) (vs ! i) dropped (path @ [PIdx i]) = (child, r)"
        by (cases "merge (d_x c) (vs ! i) dropped (path @ [PIdx i])") auto
      have ki: "keyFree (vs ! i)" using kf True by simp
      have pc: "payload child = payload (vs ! i)"
        using "11.IH"(2)[OF Some True refl docKeyFree_parts(1)[OF cf] ki] mg by simp
      have up: "map payload (vs[i := child]) = map payload vs"
        by (rule payload_update[OF True pc])
      have kc: "keyFree child" using keyFree_same_payload[OF pc] ki by simp
      have ku: "\<forall>v \<in> set (vs[i := child]). keyFree v" by (rule keyFree_update[OF kf kc])
      show ?thesis
      proof (cases r)
        case (Inl e)
        then show ?thesis using Some True mg up by (simp add: Let_def)
      next
        case (Inr d1)
        have "map payload (snd (fst (mergeIndices m keys ?set1 (vs[i := child]) d1 path)))
            = map payload (vs[i := child])"
          using "11.IH"(3)[OF Some True refl mg[symmetric] refl refl Inr mf ku] .
        then show ?thesis using Some True mg up Inr by (simp add: Let_def)
      qed
    next
      case False
      show ?thesis
      proof (cases "droppedComment (path @ [PIdx i]) (d_b c) (d_a c)")
        case (Inl e)
        then show ?thesis using Some False by simp
      next
        case (Inr orph)
        show ?thesis
        proof (cases "dropAll (d_x c) (dropped @ [orph]) (path @ [PIdx i])")
          case (Inl e)
          then show ?thesis using Some False Inr by simp
        next
          case d: (Inr d1)
          show ?thesis using Some False Inr d "11.IH"(4)[OF Some False Inr d mf kf] by simp
        qed
      qed
    qed
  qed
next
  case (13 s key keys setComments kvs dropped path)
  note sf = "13.prems"(1) and kf = "13.prems"(3)
  have nk: "key \<noteq> commentsKey" and ks: "commentsKey \<notin> set keys"
    using "13.prems"(2) by auto
  show ?case
  proof (cases s)
    case None
    then show ?thesis by simp
  next
    case sm: (Some m)
    have mf: "\<forall>p \<in> set m. docKeyFree (snd p)" using sf sm by simp
    show ?thesis
    proof (cases "map_of kvs key")
      case None
      show ?thesis
      proof (cases "map_of m key")
        case nm: None
        then show ?thesis using sm nk None "13.IH"(1)[OF sm nk None nm sf ks kf] by simp
      next
        case c: (Some c)
        show ?thesis
        proof (cases "droppedComment (path @ [PKey key]) (d_b c) (d_a c)")
          case (Inl e)
          then show ?thesis using sm nk None c by simp
        next
          case (Inr orph)
          show ?thesis
          proof (cases "dropAll (d_x c) (dropped @ [orph]) (path @ [PKey key])")
            case (Inl e)
            then show ?thesis using sm nk None c Inr by simp
          next
            case d: (Inr d1)
            show ?thesis
              using sm nk None c Inr d "13.IH"(2)[OF sm nk None c Inr d sf ks kf] by simp
          qed
        qed
      qed
    next
      case v: (Some v)
      let ?set1 = "case co setComments of
                              None \<Rightarrow> setComments
                            | Some order \<Rightarrow> setComments\<lparr>co := Some (order @ [key])\<rparr>"
      show ?thesis
      proof (cases "map_of m key")
        case nm: None
        then show ?thesis
          using sm nk v "13.IH"(3)[OF sm nk v refl nm sf ks kf] by (simp add: Let_def)
      next
        case c: (Some c)
        let ?set2 = "?set1\<lparr>cc := Some (assoc_set
                                     (case cc ?set1 of None \<Rightarrow> [] | Some x \<Rightarrow> x) key
                                     (pair_entry (d_b c) (d_a c)))\<rparr>"
        have cf: "docKeyFree c" by (rule docKeyFree_map_of[OF mf c])
        have kv: "keyFree v" by (rule keyFree_map_of[OF kf v])
        obtain child r where mg: "merge (d_x c) v dropped (path @ [PKey key]) = (child, r)"
          by (cases "merge (d_x c) v dropped (path @ [PKey key])") auto
        have pc: "payload child = payload v"
          using "13.IH"(4)[OF sm nk v refl c refl docKeyFree_parts(1)[OF cf] kv] mg by simp
        have up: "map (\<lambda>(k, v). (k, payload v)) (assoc_replace kvs key child)
            = map (\<lambda>(k, v). (k, payload v)) kvs"
          by (rule payload_assoc_replace[OF v pc])
        have kc: "keyFree child" using keyFree_same_payload[OF pc] kv by simp
        have ku: "\<forall>v \<in> set (map snd (assoc_replace kvs key child)). keyFree v"
          by (rule keyFree_assoc_replace[OF kf kc])
        show ?thesis
        proof (cases r)
          case (Inl e)
          then show ?thesis using sm nk v c mg up by (simp add: Let_def)
        next
          case (Inr d1)
          have "map (\<lambda>(k, v). (k, payload v))
                  (snd (fst (mergeKeys s keys ?set2 (assoc_replace kvs key child) d1 path)))
              = map (\<lambda>(k, v). (k, payload v)) (assoc_replace kvs key child)"
            using "13.IH"(5)[OF sm nk v refl c refl mg[symmetric] refl refl Inr sf ks ku] .
          then show ?thesis using sm nk v c mg up Inr by (simp add: Let_def)
        qed
      qed
    qed
  qed
qed simp_all

lemma rootComment_frame:
  "keyFree v \<Longrightarrow> payload (fst (rootComment v setText header)) = payload v"
  by (cases v)
     (auto simp: rootComment_def Let_def hideKey_keyFree map_of_eq_None_iff[THEN iffD2] image_iff
           split: option.splits)




section \<open>Properties of the parser\<close>

subsection \<open>Quoteless tokens\<close>

lemma cursorAfter_0: "cursorAfter tx c 0 = nextc tx c"
  by (simp add: cursorAfter_def nextc_def)

lemma cursorAfter_Suc: "cursorAfter tx (nextc tx c) m = cursorAfter tx c (Suc m)"
  by (simp add: cursorAfter_def nextc_def)

lemma not_isEol_nextc:
  assumes "\<not> isEol (nextc tx c)"
  shows "at c < length tx" and "chText (nextc tx c) = [tx ! at c]"
  using assms by (auto simp: isEol_def nextc_def charAt_def chText_def split: if_splits)

lemma scanned_Suc:
  assumes "at c < length tx"
  shows "scanned tx (nextc tx c) (v @ [tx ! at c]) m = scanned tx c v (Suc m)"
  using assms by (simp add: scanned_def substr_def nextc_def Cons_nth_drop_Suc[symmetric])

lemma stopsAt_Suc:
  assumes "\<not> isEol (nextc tx c)"
  shows "stopsAt env tx (nextc tx c) (v @ chText (nextc tx c)) m = stopsAt env tx c v (Suc m)"
  using not_isEol_nextc[OF assms]
  by (simp add: stopsAt_def cursorAfter_Suc scanned_Suc)

lemma tfnns_loop_stop:
  assumes "stopsAt env tx c v 0"
  shows "tfnns_loop env hooks tx c v = endingAt tx c 0 (resolve env hooks (scanned tx c v 0))"
  using assms
  by (subst tfnns_loop.simps)
     (auto simp: stopsAt_def cursorAfter_0 scanned_def substr_def resolve_def endingAt_def Let_def
           split: option.splits sum.splits)

lemma tfnns_loop_go:
  assumes "\<not> stopsAt env tx c v 0"
  shows "tfnns_loop env hooks tx c v
         = tfnns_loop env hooks tx (nextc tx c) (v @ chText (nextc tx c))"
  using assms
  by (subst tfnns_loop.simps)
     (auto simp: stopsAt_def cursorAfter_0 scanned_def substr_def Let_def split: option.splits)

lemma tfnns_loop_scan:
  "\<exists>n. stopsAt env tx c v n \<and> (\<forall>m<n. \<not> stopsAt env tx c v m) \<and>
       tfnns_loop env hooks tx c v = endingAt tx c n (resolve env hooks (scanned tx c v n))"
proof (induction "length tx - at c" arbitrary: c v rule: less_induct)
  case less
  show ?case
  proof (cases "stopsAt env tx c v 0")
    case True
    then show ?thesis using tfnns_loop_stop[OF True] by (intro exI[of _ 0]) simp
  next
    case False
    then have ne: "\<not> isEol (nextc tx c)" by (simp add: stopsAt_def cursorAfter_0)
    let ?c = "nextc tx c" and ?v = "v @ chText (nextc tx c)"
    have lt: "length tx - at ?c < length tx - at c"
      using not_isEol_nextc(1)[OF ne] by (simp add: nextc_def)
    from less[OF lt, of ?v] obtain n where
      n: "stopsAt env tx ?c ?v n" "\<forall>m<n. \<not> stopsAt env tx ?c ?v m"
         "tfnns_loop env hooks tx ?c ?v = endingAt tx ?c n (resolve env hooks (scanned tx ?c ?v n))"
      by blast
    have s: "stopsAt env tx c v (Suc n)" using n(1) by (simp add: stopsAt_Suc[OF ne])
    have m: "\<forall>m<Suc n. \<not> stopsAt env tx c v m"
    proof (intro allI impI)
      fix m assume "m < Suc n"
      show "\<not> stopsAt env tx c v m"
      proof (cases m)
        case 0
        then show ?thesis using False by simp
      next
        case (Suc k)
        then have "k < n" using \<open>m < Suc n\<close> by simp
        then have "\<not> stopsAt env tx ?c ?v k" using n(2) by simp
        then show ?thesis using Suc by (simp add: stopsAt_Suc[OF ne])
      qed
    qed
    have e: "endingAt tx ?c n (resolve env hooks (scanned tx ?c ?v n))
             = endingAt tx c (Suc n) (resolve env hooks (scanned tx c v (Suc n)))"
      using not_isEol_nextc[OF ne]
      by (simp add: endingAt_def cursorAfter_Suc scanned_Suc split: sum.splits)
    have "tfnns_loop env hooks tx c v
          = endingAt tx c (Suc n) (resolve env hooks (scanned tx c v (Suc n)))"
      using tfnns_loop_go[OF False] n(3) e by simp
    with s m show ?thesis by blast
  qed
qed




end
